theory Spec2Isabelle
  imports Complex_Main "HOL-Library.Multiset" "HOL-Library.Option_ord"
begin

section \<open>Data model\<close>

text \<open>
  A Spark \<open>DataFrame\<close> is modelled by its schema (the ordered list of fields, each a column
  name with its \<open>DataType\<close> object) and its rows, each row a list of cells aligned with the
  schema. A cell is SQL \<open>NULL\<close>, a floating point not-a-number, a long integer (the type of
  the \<open>__row_id\<close> column assigned by \<open>monotonically_increasing_id\<close>), or any other value,
  given by the string Spark's \<open>cast(StringType())\<close> produces for it.
\<close>

datatype data_type =
  ByteType | ShortType | IntegerType | LongType | FloatType | DoubleType | DecimalType
  | StringType | BooleanType | DateType | TimestampType | BinaryType

datatype cell = Null | NaN | LongV int | StrV string

record dataframe =
  schema :: "(string \<times> data_type) list"
  rows :: "cell list list"

text \<open>Exceptions of the Python code that the modelled functions let escape.\<close>

datatype exn =
  ZeroDivisionError
  | ValueError string
  | AnalysisException string
  | IllegalArgumentException string

definition columns :: "dataframe \<Rightarrow> string list" where
  "columns df = map fst (schema df)"

text \<open>\<open>df.count()\<close>\<close>

definition df_count :: "dataframe \<Rightarrow> nat" where
  "df_count df = length (rows df)"

text \<open>The value of column \<open>c\<close> in a row of \<open>df\<close> (the first column of that name).\<close>

definition cell_at :: "dataframe \<Rightarrow> cell list \<Rightarrow> string \<Rightarrow> cell" where
  "cell_at df row c = (case map_of (zip (columns df) row) c of Some v \<Rightarrow> v | None \<Rightarrow> Null)"

fun digits :: "nat \<Rightarrow> string" where
  "digits n = (if n < 10 then [''0123456789'' ! n]
               else digits (n div 10) @ [''0123456789'' ! (n mod 10)])"

declare digits.simps [simp del]

definition long_str :: "int \<Rightarrow> string" where
  "long_str i = (if i < 0 then CHR ''-'' # digits (nat (- i)) else digits (nat i))"

text \<open>\<open>col(c).cast(StringType())\<close>: \<open>None\<close> is SQL \<open>NULL\<close>.\<close>

fun cast_string :: "cell \<Rightarrow> string option" where
  "cast_string Null = None"
| "cast_string NaN = Some ''NaN''"
| "cast_string (LongV i) = Some (long_str i)"
| "cast_string (StrV s) = Some s"

fun join_with :: "string \<Rightarrow> string list \<Rightarrow> string" where
  "join_with sep [] = []"
| "join_with sep [s] = s"
| "join_with sep (s # t # ss) = s @ sep @ join_with sep (t # ss)"

text \<open>Spark's \<open>concat_ws\<close>: joins the non-null arguments; never \<open>NULL\<close> itself.\<close>

definition concat_ws :: "string \<Rightarrow> string option list \<Rightarrow> string" where
  "concat_ws sep vs = join_with sep (concat (map (\<lambda>v. case v of None \<Rightarrow> [] | Some s \<Rightarrow> [s]) vs))"

section \<open>Column references\<close>

text \<open>
  Spark resolves a column reference given as a string (\<open>col(c)\<close>, \<open>select(c)\<close>) by parsing
  it as an attribute name and matching it against the columns of the data frame. In the name
  a dot separates the parts of a qualified or nested name and backticks quote a part (a
  doubled backtick inside a quoted part stands for one backtick); a malformed name is
  refused. The data frames of this model are flat and carry no qualifier, so only a name of
  one part can denote a column. Names are matched without regard to case (the default of
  \<open>spark.sql.caseSensitive\<close>; letters are the ASCII letters here), and the reference
  resolves when exactly one column matches: no match and an ambiguous match both raise
  \<open>AnalysisException\<close>.
\<close>

fun parse_unquoted :: "char option \<Rightarrow> string \<Rightarrow> string list \<Rightarrow> string \<Rightarrow> string list option"
  and parse_quoted :: "string \<Rightarrow> string list \<Rightarrow> string \<Rightarrow> string list option" where
  "parse_unquoted prev tmp parts [] = Some (parts @ [tmp])"
| "parse_unquoted prev tmp parts (c # cs) =
     (if c = CHR 0x60 then (if tmp \<noteq> [] then None else parse_quoted tmp parts cs)
      else if c = CHR ''.'' then
        (if prev = None \<or> prev = Some (CHR ''.'') \<or> cs = [] then None
         else parse_unquoted (Some c) [] (parts @ [tmp]) cs)
      else parse_unquoted (Some c) (tmp @ [c]) parts cs)"
| "parse_quoted tmp parts [] = None"
| "parse_quoted tmp parts (c # cs) =
     (if c = CHR 0x60 then
        (case cs of
           [] \<Rightarrow> parse_unquoted (Some c) tmp parts []
         | d # ds \<Rightarrow>
             if d = CHR 0x60 then parse_quoted (tmp @ [CHR 0x60]) parts ds
             else if d \<noteq> CHR ''.'' then None
             else parse_unquoted (Some c) tmp parts cs)
      else parse_quoted (tmp @ [c]) parts cs)"

definition parse_attribute_name :: "string \<Rightarrow> string list option" where
  "parse_attribute_name name = parse_unquoted None [] [] name"

definition lower_char :: "char \<Rightarrow> char" where
  "lower_char c =
     (case map_of (zip ''ABCDEFGHIJKLMNOPQRSTUVWXYZ'' ''abcdefghijklmnopqrstuvwxyz'') c of
        Some l \<Rightarrow> l
      | None \<Rightarrow> c)"

definition same_name :: "string \<Rightarrow> string \<Rightarrow> bool" where
  "same_name a b = (map lower_char a = map lower_char b)"

text \<open>
  The position of the column that a reference denotes in a list of column names, \<open>None\<close>
  where Spark raises. The reference \<open>*\<close> is no column (it cannot be cast).
\<close>

definition resolve :: "string list \<Rightarrow> string \<Rightarrow> nat option" where
  "resolve cols ref =
     (if ref = ''*'' then None
      else case parse_attribute_name ref of
             Some [part] \<Rightarrow>
               (case [i \<leftarrow> [0..<length cols]. same_name (cols ! i) part] of
                  [i] \<Rightarrow> Some i
                | _ \<Rightarrow> None)
           | _ \<Rightarrow> None)"

text \<open>The value of \<open>col(ref)\<close> in a row of \<open>df\<close>, for a reference that resolves.\<close>

definition col_value :: "dataframe \<Rightarrow> cell list \<Rightarrow> string \<Rightarrow> cell" where
  "col_value df row ref =
     (case resolve (columns df) ref of
        Some i \<Rightarrow> if i < length row then row ! i else Null
      | None \<Rightarrow> Null)"

text \<open>
  The column names after \<open>withColumn(c, _)\<close>: every column whose name matches \<open>c\<close> is
  replaced by the new column, named \<open>c\<close>; where none matches the new column is appended.
\<close>

definition with_column_names :: "string \<Rightarrow> string list \<Rightarrow> string list" where
  "with_column_names c cols =
     (if list_ex (\<lambda>n. same_name n c) cols
      then map (\<lambda>n. if same_name n c then c else n) cols
      else cols @ [c])"

section \<open>Chunk comparison (comparison\_engine.py)\<close>

text \<open>
  A chunk result is a Python dict; the two shapes the code builds have different keys, so a
  key that may be absent is an option field (\<open>'error' in result\<close> is \<open>error r \<noteq> None\<close>,
  \<open>result.get(k, 0)\<close> is a case on the field). The float \<open>match_percentage\<close> is idealised
  as a real; the wall-clock \<open>timestamp\<close> is not modelled.
\<close>

record chunk_result =
  chunk_id :: nat
  error :: "string option"
  matches :: "int option"
  differences :: "int option"
  only_in_dataset1 :: "int option"
  only_in_dataset2 :: "int option"
  total_rows :: "int option"
  common_columns :: "string list option"
  match_percentage :: "real option"

definition error_result :: "nat \<Rightarrow> string \<Rightarrow> chunk_result" where
  "error_result cid msg =
     \<lparr>chunk_id = cid, error = Some msg, matches = Some 0, differences = Some 0,
      only_in_dataset1 = None, only_in_dataset2 = None, total_rows = Some 0,
      common_columns = None, match_percentage = None\<rparr>"

definition system_columns :: "string list" where
  "system_columns = [''__row_id'', ''__fingerprint'', ''__chunk_id'']"

text \<open>The list comprehension over \<open>chunk1.columns\<close>: Python compares the names exactly.\<close>

definition common_columns_of :: "dataframe \<Rightarrow> dataframe \<Rightarrow> string list" where
  "common_columns_of chunk1 chunk2 =
     [c \<leftarrow> columns chunk1. c \<in> set (columns chunk2) \<and> c \<notin> set system_columns]"

text \<open>The \<open>__comparison_key\<close> column: \<open>concat_ws("|", *[col(c).cast(StringType()) ...])\<close>.\<close>

definition comparison_key :: "string list \<Rightarrow> dataframe \<Rightarrow> cell list \<Rightarrow> string" where
  "comparison_key cols df row = concat_ws ''|'' (map (\<lambda>c. cast_string (col_value df row c)) cols)"

definition comparison_keys :: "string list \<Rightarrow> dataframe \<Rightarrow> string list" where
  "comparison_keys cols df = map (comparison_key cols df) (rows df)"

text \<open>
  What the two statements on one chunk need in order not to raise: \<open>withColumn\<close> resolves
  every common column in the chunk, and \<open>select("__comparison_key", "__row_id")\<close> resolves
  both names in the chunk with the key column.
\<close>

definition key_selectable :: "string list \<Rightarrow> dataframe \<Rightarrow> bool" where
  "key_selectable common chunk =
     (list_all (\<lambda>c. resolve (columns chunk) c \<noteq> None) common \<and>
      resolve (with_column_names ''__comparison_key'' (columns chunk)) ''__comparison_key'' \<noteq> None \<and>
      resolve (with_column_names ''__comparison_key'' (columns chunk)) ''__row_id'' \<noteq> None)"

text \<open>
  \<open>a.join(b, key, "inner").count()\<close>: one output row for every pair of a left and a right
  row with equal key. \<open>a.join(b, key, "left_anti").count()\<close>: the left rows whose key has no
  equal key on the right. The keys are strings and never \<open>NULL\<close>.
\<close>

definition inner_join_count :: "'k list \<Rightarrow> 'k list \<Rightarrow> nat" where
  "inner_join_count ks1 ks2 = length [(a, b). a \<leftarrow> ks1, b \<leftarrow> ks2, a = b]"

definition left_anti_count :: "'k list \<Rightarrow> 'k list \<Rightarrow> nat" where
  "left_anti_count ks1 ks2 = length [a \<leftarrow> ks1. a \<notin> set ks2]"

text \<open>
  The whole body is guarded by an exception handler: a column reference that Spark cannot
  resolve raises inside it and yields the error dict (the text stands for Spark's message).
\<close>

definition compare_data_chunks :: "dataframe \<Rightarrow> dataframe \<Rightarrow> nat \<Rightarrow> chunk_result" where
  "compare_data_chunks chunk1 chunk2 cid =
     (let common = common_columns_of chunk1 chunk2 in
      if common = [] then error_result cid ''No common columns found''
      else if key_selectable common chunk1 \<and> key_selectable common chunk2
      then
        let ks1 = comparison_keys common chunk1;
            ks2 = comparison_keys common chunk2;
            match_count = inner_join_count ks1 ks2;
            larger = max (df_count chunk1) (df_count chunk2)
        in \<lparr>chunk_id = cid, error = None,
            matches = Some (int match_count),
            differences = None,
            only_in_dataset1 = Some (int (left_anti_count ks1 ks2)),
            only_in_dataset2 = Some (int (left_anti_count ks2 ks1)),
            total_rows = Some (int (df_count chunk1 + df_count chunk2)),
            common_columns = Some common,
            match_percentage =
              Some (if larger > 0 then (real match_count / real larger) * 100 else 0)\<rparr>
      else error_result cid ''AnalysisException'')"

text \<open>\<open>result.get(key, 0)\<close>\<close>

definition get0 :: "int option \<Rightarrow> int" where
  "get0 v = (case v of None \<Rightarrow> 0 | Some n \<Rightarrow> n)"

record agg_state =
  acc_matches :: int
  acc_only_in_1 :: int
  acc_only_in_2 :: int
  acc_rows :: int
  acc_successful :: nat
  acc_failed :: nat
  acc_errors :: "string list"

definition agg_init :: agg_state where
  "agg_init = \<lparr>acc_matches = 0, acc_only_in_1 = 0, acc_only_in_2 = 0, acc_rows = 0,
               acc_successful = 0, acc_failed = 0, acc_errors = []\<rparr>"

text \<open>One iteration of the loop \<open>for result in chunk_results\<close>.\<close>

definition agg_step :: "agg_state \<Rightarrow> chunk_result \<Rightarrow> agg_state" where
  "agg_step s r =
     (case error r of
        Some msg \<Rightarrow>
          s\<lparr>acc_failed := acc_failed s + 1,
            acc_errors := acc_errors s @ [''Chunk '' @ digits (chunk_id r) @ '': '' @ msg]\<rparr>
      | None \<Rightarrow>
          s\<lparr>acc_successful := acc_successful s + 1,
            acc_matches := acc_matches s + get0 (matches r),
            acc_only_in_1 := acc_only_in_1 s + get0 (only_in_dataset1 r),
            acc_only_in_2 := acc_only_in_2 s + get0 (only_in_dataset2 r),
            acc_rows := acc_rows s + get0 (total_rows r)\<rparr>)"

fun agg_loop :: "agg_state \<Rightarrow> chunk_result list \<Rightarrow> agg_state" where
  "agg_loop s [] = s"
| "agg_loop s (r # rs) = agg_loop (agg_step s r) rs"

text \<open>
  The result dict of \<open>aggregate_chunk_results\<close>, without the rounded float
  \<open>match_percentage\<close> (see \<open>aggregate_match_percentage\<close> below) and the \<open>timestamp\<close>.
\<close>

record aggregated_result =
  total_matches :: int
  total_only_in_dataset1 :: int
  total_only_in_dataset2 :: int
  total_differences :: int
  total_rows_processed :: int
  successful_chunks :: nat
  failed_chunks :: nat
  total_chunks :: nat
  errors :: "string list"
  datasets_match :: bool

text \<open>
  The local variable \<open>match_percentage\<close> of \<open>aggregate_chunk_results\<close>, before it is rounded
  to two decimals for the result dict.
\<close>

definition aggregate_match_percentage :: "chunk_result list \<Rightarrow> real" where
  "aggregate_match_percentage chunk_results =
     (let s = agg_loop agg_init chunk_results;
          total_differences = acc_only_in_1 s + acc_only_in_2 s
      in if acc_rows s > 0
         then (real_of_int (acc_matches s) / real_of_int (max (acc_rows s - total_differences) 1)) * 100
         else 0)"

definition aggregate_chunk_results :: "chunk_result list \<Rightarrow> aggregated_result" where
  "aggregate_chunk_results chunk_results =
     (let s = agg_loop agg_init chunk_results;
          total_differences = acc_only_in_1 s + acc_only_in_2 s
      in \<lparr>total_matches = acc_matches s,
          total_only_in_dataset1 = acc_only_in_1 s,
          total_only_in_dataset2 = acc_only_in_2 s,
          total_differences = total_differences,
          total_rows_processed = acc_rows s,
          successful_chunks = acc_successful s,
          failed_chunks = acc_failed s,
          total_chunks = length chunk_results,
          errors = acc_errors s,
          datasets_match = (total_differences = 0 \<and> acc_failed s = 0)\<rparr>)"

subsection \<open>Example chunks\<close>

definition dup_chunk :: dataframe where
  "dup_chunk = \<lparr>schema = [(''city'', StringType), (''__row_id'', LongType)],
     rows = [[StrV ''Oslo'', LongV 0], [StrV ''Oslo'', LongV 1], [StrV ''Oslo'', LongV 2]]\<rparr>"

definition uniq_chunk :: dataframe where
  "uniq_chunk = \<lparr>schema = [(''city'', StringType), (''__row_id'', LongType)],
     rows = [[StrV ''Oslo'', LongV 0], [StrV ''Rome'', LongV 1]]\<rparr>"

definition trio_chunk :: dataframe where
  "trio_chunk = \<lparr>schema = [(''__row_id'', LongType), (''city'', StringType)],
     rows = [[LongV 0, StrV ''Bern''], [LongV 1, StrV ''Oslo''], [LongV 2, Null]]\<rparr>"

section \<open>Chunker (comparison\_engine.py)\<close>

text \<open>Python's \<open>a // b\<close> on integers: floor division, \<open>ZeroDivisionError\<close> for \<open>b = 0\<close>.\<close>

definition py_floordiv :: "int \<Rightarrow> int \<Rightarrow> exn + int" where
  "py_floordiv a b = (if b = 0 then Inl ZeroDivisionError else Inr (a div b))"

text \<open>
  The column expression \<open>(col("__row_id") / chunk_size).cast("int")\<close>: the quotient of the
  two numbers as doubles, cast to a 32-bit integer. The cast rounds toward zero and saturates
  at the bounds of the type; the expression is \<open>NULL\<close> for a \<open>NULL\<close> row identifier and for
  a zero divisor. \<open>__row_id\<close> is a long column, so its cells are longs or \<open>NULL\<close>. The
  double quotient is idealised as the exact one (the rounding of doubles, which matters for
  identifiers beyond \<open>2^53\<close>, is not modelled).
\<close>

definition trunc_div :: "int \<Rightarrow> int \<Rightarrow> int" where
  "trunc_div a b = (if (a < 0) = (b < 0) then \<bar>a\<bar> div \<bar>b\<bar> else - (\<bar>a\<bar> div \<bar>b\<bar>))"

definition cast_int32 :: "int \<Rightarrow> int" where
  "cast_int32 q = max (- 2147483648) (min 2147483647 q)"

definition row_chunk_id :: "int \<Rightarrow> cell \<Rightarrow> int option" where
  "row_chunk_id chunk_size v =
     (case v of
        LongV r \<Rightarrow> if chunk_size = 0 then None else Some (cast_int32 (trunc_div r chunk_size))
      | _ \<Rightarrow> None)"

text \<open>\<open>df.filter(p)\<close> keeps the rows on which the predicate is true.\<close>

definition filter_rows :: "(cell list \<Rightarrow> bool) \<Rightarrow> dataframe \<Rightarrow> dataframe" where
  "filter_rows p df = df\<lparr>rows := filter p (rows df)\<rparr>"

text \<open>\<open>df.drop(c)\<close> removes the column \<open>c\<close> from the schema and from every row.\<close>

definition drop_col :: "string \<Rightarrow> dataframe \<Rightarrow> dataframe" where
  "drop_col c df =
     \<lparr>schema = [f \<leftarrow> schema df. fst f \<noteq> c],
      rows = map (\<lambda>row. map snd [p \<leftarrow> zip (columns df) row. fst p \<noteq> c]) (rows df)\<rparr>"

text \<open>
  \<open>df_with_chunk.filter(col("__chunk_id") == i).drop("__chunk_id")\<close>, where \<open>__chunk_id\<close>
  is the column expression above.
\<close>

definition chunk_of :: "dataframe \<Rightarrow> int \<Rightarrow> int \<Rightarrow> dataframe" where
  "chunk_of df chunk_size i =
     drop_col ''__chunk_id''
       (filter_rows (\<lambda>row. row_chunk_id chunk_size (cell_at df row ''__row_id'') = Some i) df)"

text \<open>
  \<open>chunk_dataframe\<close>: the exceptions are logged and re-raised. \<open>withColumn\<close> resolves
  \<open>__row_id\<close> when it is called, so a source without that column raises there.
\<close>

definition chunk_dataframe :: "dataframe \<Rightarrow> int \<Rightarrow> exn + dataframe list" where
  "chunk_dataframe df chunk_size =
     (let total_rows = int (df_count df) in
      case py_floordiv (total_rows + chunk_size - 1) chunk_size of
        Inl e \<Rightarrow> Inl e
      | Inr num_chunks \<Rightarrow>
          if ''__row_id'' \<notin> set (columns df) then Inl (AnalysisException ''__row_id'')
          else Inr (map (\<lambda>i. chunk_of df chunk_size (int i)) [0..<nat num_chunks]))"

text \<open>The row identifiers held by a data frame, in row order.\<close>

definition row_ids :: "dataframe \<Rightarrow> cell list" where
  "row_ids df = map (\<lambda>row. cell_at df row ''__row_id'') (rows df)"

definition id_chunk :: dataframe where
  "id_chunk = \<lparr>schema = [(''__row_id'', LongType), (''v'', StringType)],
     rows = [[LongV 3, StrV ''d''], [LongV 0, StrV ''a''], [LongV 4, StrV ''e''],
             [LongV 1, StrV ''b''], [LongV 2, StrV ''c'']]\<rparr>"

text \<open>
  Four rows with the identifiers that \<open>monotonically_increasing_id\<close> assigns to a data frame
  of two partitions, of one and of three rows: the partition index is in the upper 31 bits,
  so the second partition starts at \<open>2^33 = 8589934592\<close>.
\<close>

definition two_partitions :: dataframe where
  "two_partitions = \<lparr>schema = [(''v'', StringType), (''__row_id'', LongType)],
     rows = [[StrV ''a'', LongV 0], [StrV ''b'', LongV 8589934592],
             [StrV ''c'', LongV 8589934593], [StrV ''d'', LongV 8589934594]]\<rparr>"

section \<open>Parallel comparison coordinator (comparison\_engine.py)\<close>

text \<open>
  The tasks submitted to the executor: \<open>enumerate(zip(chunks1, chunks2))\<close>, each future
  tagged with its index.
\<close>

definition submitted :: "dataframe list \<Rightarrow> dataframe list \<Rightarrow> (nat \<times> dataframe \<times> dataframe) list" where
  "submitted chunks1 chunks2 = zip [0..<length (zip chunks1 chunks2)] (zip chunks1 chunks2)"

text \<open>
  The thread pool is modelled by the order in which the futures complete: \<open>as_completed\<close>
  is a parameter that yields the submitted futures, each once, in any order. A task computes
  \<open>compare_data_chunks\<close> on its own pair, with \<open>chunk_id\<close> set to its index in a copy of the
  configuration. As \<open>compare_data_chunks\<close> catches every exception itself,
  \<open>future.result()\<close> does not raise and the \<open>except\<close> branch of the collecting loop is
  not taken. Python's \<open>list.sort\<close> is stable, as \<open>sort_key\<close> is.
\<close>

definition parallel_chunk_comparison ::
  "((nat \<times> dataframe \<times> dataframe) list \<Rightarrow> (nat \<times> dataframe \<times> dataframe) list) \<Rightarrow>
   dataframe list \<Rightarrow> dataframe list \<Rightarrow> chunk_result list" where
  "parallel_chunk_comparison as_completed chunks1 chunks2 =
     (let future_to_chunk = submitted chunks1 chunks2;
          results = map (\<lambda>(i, chunk1, chunk2). compare_data_chunks chunk1 chunk2 i)
                        (as_completed future_to_chunk)
      in sort_key chunk_id results)"

section \<open>Fingerprinting (fingerprinting\_sampler.py, data\_comparator.py)\<close>

text \<open>
  \<open>df.withColumn(c, e)\<close> replaces the column \<open>c\<close> where the data frame has one and
  appends it otherwise; the expression is evaluated on each row of \<open>df\<close>.
\<close>

definition with_column ::
  "string \<Rightarrow> data_type \<Rightarrow> (cell list \<Rightarrow> cell) \<Rightarrow> dataframe \<Rightarrow> dataframe" where
  "with_column c t e df =
     (if c \<in> set (columns df)
      then \<lparr>schema = map (\<lambda>(n, ty). if n = c then (n, t) else (n, ty)) (schema df),
            rows = map (\<lambda>row. map (\<lambda>(n, v). if n = c then e row else v) (zip (columns df) row))
                       (rows df)\<rparr>
      else \<lparr>schema = schema df @ [(c, t)], rows = map (\<lambda>row. row @ [e row]) (rows df)\<rparr>)"

text \<open>
  \<open>isnan(c)\<close> takes a double or a float. Spark casts a numeric or a string column to
  double for it and refuses a column of any other type. A text becomes the double
  not-a-number when, without the white space around it, it is \<open>NaN\<close> with an optional sign,
  or \<open>nan\<close> in any mix of cases.
\<close>

definition isnan_accepts :: "data_type \<Rightarrow> bool" where
  "isnan_accepts t =
     (t \<in> set [ByteType, ShortType, IntegerType, LongType, FloatType, DoubleType, DecimalType,
               StringType])"

definition trim :: "string \<Rightarrow> string" where
  "trim s = rev (dropWhile (\<lambda>c. of_char c \<le> (32::nat)) (rev (dropWhile (\<lambda>c. of_char c \<le> (32::nat)) s)))"

definition nan_text :: "string \<Rightarrow> bool" where
  "nan_text s =
     (trim s \<in> set [''NaN'', ''+NaN'', ''-NaN''] \<or> map lower_char (trim s) = ''nan'')"

text \<open>
  \<open>when(isnull(c), "__NULL__").when(isnan(c), "__NAN__").otherwise(c.cast(StringType()))\<close>
\<close>

fun null_safe_string :: "cell \<Rightarrow> cell" where
  "null_safe_string Null = StrV ''__NULL__''"
| "null_safe_string NaN = StrV ''__NAN__''"
| "null_safe_string (LongV i) = StrV (long_str i)"
| "null_safe_string (StrV s) = (if nan_text s then StrV ''__NAN__'' else StrV s)"

text \<open>
  The loop \<open>for col_name in columns: df_processed = df_processed.withColumn(col_name, \<dots>)\<close>;
  a name that is not a column of the data frame raises when the expression is resolved, and
  so does a column of a type that \<open>isnan\<close> refuses.
\<close>

fun process_columns :: "string list \<Rightarrow> dataframe \<Rightarrow> exn + dataframe" where
  "process_columns [] df = Inr df"
| "process_columns (col_name # cs) df =
     (case map_of (schema df) col_name of
        None \<Rightarrow> Inl (AnalysisException col_name)
      | Some t \<Rightarrow>
          if isnan_accepts t
          then process_columns cs
                 (with_column col_name StringType
                    (\<lambda>row. null_safe_string (cell_at df row col_name)) df)
          else Inl (AnalysisException col_name))"

text \<open>\<open>concat_ws("|", *[col(c) for c in columns])\<close>, the string that is hashed.\<close>

definition canonical_string :: "string list \<Rightarrow> dataframe \<Rightarrow> cell list \<Rightarrow> string" where
  "canonical_string cols df row = concat_ws ''|'' (map (\<lambda>c. cast_string (cell_at df row c)) cols)"

text \<open>
  The hash functions of Spark (\<open>md5\<close>, \<open>sha2(\<dots>, 256)\<close> and \<open>hash\<close>) are parameters of
  the model.
\<close>

record hash_functions =
  md5 :: "string \<Rightarrow> string"
  sha2_256 :: "string \<Rightarrow> string"
  spark_hash :: "string \<Rightarrow> int"

definition create_data_fingerprint ::
  "hash_functions \<Rightarrow> dataframe \<Rightarrow> string list option \<Rightarrow> string \<Rightarrow> exn + dataframe" where
  "create_data_fingerprint H df columns_arg algorithm =
     (let cols = (case columns_arg of
                    None \<Rightarrow> [c \<leftarrow> columns df. c \<noteq> ''__row_id'']
                  | Some cs \<Rightarrow> cs)
      in case process_columns cols df of
           Inl e \<Rightarrow> Inl e
         | Inr df_processed \<Rightarrow>
             if algorithm = ''md5''
             then Inr (with_column ''__fingerprint'' StringType
                        (\<lambda>row. StrV (md5 H (canonical_string cols df_processed row))) df_processed)
             else if algorithm = ''sha256''
             then Inr (with_column ''__fingerprint'' StringType
                        (\<lambda>row. StrV (sha2_256 H (canonical_string cols df_processed row))) df_processed)
             else if algorithm = ''xxhash''
             then Inr (with_column ''__fingerprint'' IntegerType
                        (\<lambda>row. LongV (spark_hash H (canonical_string cols df_processed row))) df_processed)
             else Inl (ValueError (''Unsupported algorithm: '' @ algorithm)))"

text \<open>
  \<open>df.groupBy(c).count()\<close>: one row for each distinct value, with its number of
  occurrences (\<open>NULL\<close> is a group of its own).
\<close>

definition group_by_count :: "cell list \<Rightarrow> (cell \<times> nat) list" where
  "group_by_count ks = map (\<lambda>k. (k, count_list ks k)) (remdups ks)"

text \<open>The join condition on a key column: SQL equality, which \<open>NULL\<close> never satisfies.\<close>

definition sql_eq :: "cell \<Rightarrow> cell \<Rightarrow> bool" where
  "sql_eq a b = (a \<noteq> Null \<and> b \<noteq> Null \<and> a = b)"

definition join_inner :: "(cell \<times> 'a) list \<Rightarrow> (cell \<times> 'b) list \<Rightarrow> (cell \<times> 'a \<times> 'b) list" where
  "join_inner l r = [(fst a, snd a, snd b). a \<leftarrow> l, b \<leftarrow> r, sql_eq (fst a) (fst b)]"

definition join_left_anti :: "(cell \<times> 'a) list \<Rightarrow> (cell \<times> 'b) list \<Rightarrow> (cell \<times> 'a) list" where
  "join_left_anti l r = [a \<leftarrow> l. list_all (\<lambda>b. \<not> sql_eq (fst a) (fst b)) r]"

text \<open>
  The result dict of \<open>compare_fingerprints\<close>, without the rounded float \<open>match_percentage\<close>.
\<close>

record fingerprint_comparison =
  common_fingerprints :: nat
  fp_only_in_dataset1 :: nat
  fp_only_in_dataset2 :: nat
  total_dataset1 :: nat
  total_dataset2 :: nat
  fingerprints_match :: bool

definition fingerprints :: "dataframe \<Rightarrow> cell list" where
  "fingerprints df = map (\<lambda>row. cell_at df row ''__fingerprint'') (rows df)"

definition compare_fingerprints :: "dataframe \<Rightarrow> dataframe \<Rightarrow> exn + fingerprint_comparison" where
  "compare_fingerprints df1 df2 =
     (if ''__fingerprint'' \<notin> set (columns df1) \<or> ''__fingerprint'' \<notin> set (columns df2)
      then Inl (AnalysisException ''__fingerprint'')
      else
        let fp1_counts = group_by_count (fingerprints df1);
            fp2_counts = group_by_count (fingerprints df2);
            common_count = length (join_inner fp1_counts fp2_counts);
            only_in_1_count = length (join_left_anti fp1_counts fp2_counts);
            only_in_2_count = length (join_left_anti fp2_counts fp1_counts)
        in Inr \<lparr>common_fingerprints = common_count,
                fp_only_in_dataset1 = only_in_1_count,
                fp_only_in_dataset2 = only_in_2_count,
                total_dataset1 = df_count df1,
                total_dataset2 = df_count df2,
                fingerprints_match = (only_in_1_count = 0 \<and> only_in_2_count = 0)\<rparr>)"

text \<open>
  The fingerprinting phase of \<open>data_comparator.py\<close>. The settings are a dict: a key that
  may be absent is an option field, and \<open>settings.get(key, default)\<close> is a case on it. The
  phase returns \<open>None\<close> for the comparison when fingerprinting is disabled; the timing is
  not modelled.
\<close>

record comparison_settings =
  enable_fingerprinting :: "bool option"
  fingerprint_columns :: "string list option"
  fingerprint_algorithm :: "string option"

definition run_fingerprinting_comparison ::
  "hash_functions \<Rightarrow> dataframe \<Rightarrow> dataframe \<Rightarrow> comparison_settings \<Rightarrow>
   exn + fingerprint_comparison option" where
  "run_fingerprinting_comparison H df1 df2 settings =
     (if \<not> (case enable_fingerprinting settings of None \<Rightarrow> True | Some b \<Rightarrow> b)
      then Inr None
      else
        let fp_columns = (case fingerprint_columns settings of None \<Rightarrow> [] | Some cs \<Rightarrow> cs);
            algorithm = (case fingerprint_algorithm settings of None \<Rightarrow> ''md5'' | Some a \<Rightarrow> a)
        in case create_data_fingerprint H df1 (Some fp_columns) algorithm of
             Inl e \<Rightarrow> Inl e
           | Inr df1_fp \<Rightarrow>
               (case create_data_fingerprint H df2 (Some fp_columns) algorithm of
                  Inl e \<Rightarrow> Inl e
                | Inr df2_fp \<Rightarrow>
                    (case compare_fingerprints df1_fp df2_fp of
                       Inl e \<Rightarrow> Inl e
                     | Inr r \<Rightarrow> Inr (Some r))))"

definition default_settings :: comparison_settings where
  "default_settings =
     \<lparr>enable_fingerprinting = Some True, fingerprint_columns = None, fingerprint_algorithm = None\<rparr>"

definition oslo_source :: dataframe where
  "oslo_source = \<lparr>schema = [(''city'', StringType), (''__row_id'', LongType)],
     rows = [[StrV ''Oslo'', LongV 0], [StrV ''Bern'', LongV 1]]\<rparr>"

definition rome_source :: dataframe where
  "rome_source = \<lparr>schema = [(''city'', StringType), (''__row_id'', LongType)],
     rows = [[StrV ''Rome'', LongV 0], [StrV ''Kyiv'', LongV 1]]\<rparr>"

definition fp_source :: dataframe where
  "fp_source = \<lparr>schema = [(''__row_id'', LongType), (''__fingerprint'', StringType)],
     rows = [[LongV 0, StrV ''f1''], [LongV 1, StrV ''f2''], [LongV 2, StrV ''f1'']]\<rparr>"

definition fp_source_permuted :: dataframe where
  "fp_source_permuted = \<lparr>schema = [(''__row_id'', LongType), (''__fingerprint'', StringType)],
     rows = [[LongV 2, StrV ''f1''], [LongV 0, StrV ''f1''], [LongV 1, StrV ''f2'']]\<rparr>"

definition fp_destination :: dataframe where
  "fp_destination = \<lparr>schema = [(''__row_id'', LongType), (''__fingerprint'', StringType)],
     rows = [[LongV 0, StrV ''f2''], [LongV 1, StrV ''f3'']]\<rparr>"

definition fp_destination_permuted :: dataframe where
  "fp_destination_permuted = \<lparr>schema = [(''__row_id'', LongType), (''__fingerprint'', StringType)],
     rows = [[LongV 1, StrV ''f3''], [LongV 0, StrV ''f2'']]\<rparr>"

text \<open>A stand-in for the hash functions, for evaluating examples.\<close>

definition sample_hashes :: hash_functions where
  "sample_hashes = \<lparr>md5 = (\<lambda>s. ''md5:'' @ s), sha2_256 = (\<lambda>s. ''sha256:'' @ s),
                     spark_hash = (\<lambda>s. int (length s))\<rparr>"

section \<open>Sampling (fingerprinting\_sampler.py)\<close>

text \<open>
  \<open>df.sample(withReplacement=False, fraction=f, seed=42)\<close> is Bernoulli sampling: Spark
  draws one pseudo-random number of \<open>[0, 1)\<close> for each row and keeps the row when the number
  is below the fraction. The stream of numbers that the seed determines is the parameter
  \<open>draws\<close> (the number drawn for the row at each position). A fraction outside \<open>[0, 1]\<close>
  is refused. The float fraction is idealised as a real.
\<close>

definition sample_rows :: "(nat \<Rightarrow> real) \<Rightarrow> real \<Rightarrow> dataframe \<Rightarrow> exn + dataframe" where
  "sample_rows draws fraction df =
     (if fraction < 0 \<or> 1 < fraction then Inl (IllegalArgumentException ''fraction'')
      else Inr (df\<lparr>rows := map snd [p \<leftarrow> zip [0..<length (rows df)] (rows df). draws (fst p) < fraction]\<rparr>))"

definition random_sampling :: "(nat \<Rightarrow> real) \<Rightarrow> dataframe \<Rightarrow> int \<Rightarrow> exn + dataframe" where
  "random_sampling draws df sample_size =
     (let total_rows = int (df_count df) in
      if total_rows \<le> sample_size then Inr df
      else if total_rows = 0 then Inl ZeroDivisionError
      else
        let sample_ratio = real_of_int sample_size / real_of_int total_rows
        in sample_rows draws sample_ratio df)"

text \<open>
  The value a row is ordered by in \<open>orderBy("__row_id")\<close>: \<open>__row_id\<close> is a long column,
  and \<open>NULL\<close> sorts first.
\<close>

definition row_id_value :: "cell \<Rightarrow> int option" where
  "row_id_value v = (case v of LongV i \<Rightarrow> Some i | _ \<Rightarrow> None)"

text \<open>
  \<open>df.withColumn("__row_num", row_number().over(Window.partitionBy().orderBy("__row_id")))\<close>:
  the rows in the order of their identifiers, numbered from 1.
\<close>

definition with_row_number :: "dataframe \<Rightarrow> dataframe" where
  "with_row_number df =
     (let sorted_rows = sort_key (\<lambda>row. row_id_value (cell_at df row ''__row_id'')) (rows df);
          numbered = zip sorted_rows (map (\<lambda>i. LongV (int i + 1)) [0..<length sorted_rows])
      in if ''__row_num'' \<in> set (columns df)
         then \<lparr>schema = map (\<lambda>(n, ty). if n = ''__row_num'' then (n, IntegerType) else (n, ty)) (schema df),
               rows = map (\<lambda>(row, num). map (\<lambda>(n, v). if n = ''__row_num'' then num else v)
                                             (zip (columns df) row)) numbered\<rparr>
         else \<lparr>schema = schema df @ [(''__row_num'', IntegerType)],
               rows = map (\<lambda>(row, num). row @ [num]) numbered\<rparr>)"

text \<open>Spark's \<open>%\<close>: the remainder of the division that rounds toward zero; \<open>NULL\<close> for divisor 0.\<close>

definition spark_mod :: "int \<Rightarrow> int \<Rightarrow> int option" where
  "spark_mod a b = (if b = 0 then None else Some (a - b * trunc_div a b))"

text \<open>\<open>df.limit(n)\<close>: the first \<open>n\<close> rows; a negative limit is refused.\<close>

definition limit_rows :: "int \<Rightarrow> dataframe \<Rightarrow> exn + dataframe" where
  "limit_rows n df =
     (if n < 0 then Inl (AnalysisException ''limit'') else Inr (df\<lparr>rows := take (nat n) (rows df)\<rparr>))"

definition systematic_sampling :: "dataframe \<Rightarrow> int \<Rightarrow> exn + dataframe" where
  "systematic_sampling df sample_size =
     (let total_rows = int (df_count df) in
      if total_rows \<le> sample_size then Inr df
      else
        case py_floordiv total_rows sample_size of
          Inl e \<Rightarrow> Inl e
        | Inr interval \<Rightarrow>
            if ''__row_id'' \<notin> set (columns df) then Inl (AnalysisException ''__row_id'')
            else
              let df_with_rownum = with_row_number df;
                  filtered = filter_rows
                    (\<lambda>row. case cell_at df_with_rownum row ''__row_num'' of
                             LongV num \<Rightarrow> spark_mod num interval = Some 0
                           | _ \<Rightarrow> False) df_with_rownum
              in case limit_rows sample_size filtered of
                   Inl e \<Rightarrow> Inl e
                 | Inr sampled_df \<Rightarrow> Inr (drop_col ''__row_num'' sampled_df))"

text \<open>
  In \<open>adaptive_sampling\<close> the test \<open>field.dataType in ['int', 'long', 'float', 'double']\<close>
  compares, with Python's \<open>==\<close>, the \<open>DataType\<close> object of a schema field with \<open>str\<close>
  objects. The two kinds of Python object are the two constructors of \<open>py_value\<close>: a
  \<open>DataType\<close> object is equal only to a \<open>DataType\<close> object of its own class, never to a
  string.
\<close>

datatype py_value = PyStr string | PyDataType data_type

definition numeric_type_names :: "py_value list" where
  "numeric_type_names = [PyStr ''int'', PyStr ''long'', PyStr ''float'', PyStr ''double'']"

definition numeric_columns :: "dataframe \<Rightarrow> string list" where
  "numeric_columns df =
     map fst [field \<leftarrow> schema df. PyDataType (snd field) \<in> set numeric_type_names]"

text \<open>
  \<open>adaptive_sampling\<close>. \<open>stratified_sampling\<close> is a parameter here: the dispatch decides
  only whether it is called and on which column.
\<close>

definition adaptive_sampling ::
  "(nat \<Rightarrow> real) \<Rightarrow> (dataframe \<Rightarrow> int \<Rightarrow> string \<Rightarrow> exn + dataframe) \<Rightarrow>
   dataframe \<Rightarrow> int \<Rightarrow> string \<Rightarrow> exn + dataframe" where
  "adaptive_sampling draws stratified_sampling df sample_size sampling_strategy =
     (if sampling_strategy = ''random'' then random_sampling draws df sample_size
      else if sampling_strategy = ''systematic'' then systematic_sampling df sample_size
      else if sampling_strategy = ''stratified'' then
        (case numeric_columns df of
           stratify_col # _ \<Rightarrow> stratified_sampling df sample_size stratify_col
         | [] \<Rightarrow> random_sampling draws df sample_size)
      else Inl (ValueError (''Unsupported sampling strategy: '' @ sampling_strategy)))"

definition people :: dataframe where
  "people = \<lparr>schema = [(''name'', StringType), (''age'', IntegerType), (''__row_id'', LongType)],
     rows = [[StrV ''Ada'', StrV ''36'', LongV 0], [StrV ''Bob'', StrV ''41'', LongV 1],
             [StrV ''Cyd'', StrV ''36'', LongV 2]]\<rparr>"

text \<open>A stand-in for \<open>stratified_sampling\<close> that records the column it is called on.\<close>

definition stratified_stub :: "dataframe \<Rightarrow> int \<Rightarrow> string \<Rightarrow> exn + dataframe" where
  "stratified_stub df sample_size stratify_column =
     Inr \<lparr>schema = [(stratify_column, StringType)], rows = []\<rparr>"

section \<open>Drift detection (fingerprinting\_sampler.py)\<close>

text \<open>
  The per-column part of \<open>detect_data_drift\<close>. \<open>stats1_dict\<close> and \<open>stats2_dict\<close> map the
  summary names of \<open>describe()\<close> to the column's value, a string or \<open>None\<close>. Python's
  \<open>float(v)\<close> is the parameter \<open>py_float\<close>, which is \<open>None\<close> where \<open>float\<close> raises
  \<open>ValueError\<close> or \<open>TypeError\<close>; both are caught and skip the indicator. Floats are
  idealised as reals.
\<close>

record drift_indicator =
  ind_type :: string
  ind_value :: real
  ind_threshold :: real

definition mean_indicators ::
  "(string option \<Rightarrow> real option) \<Rightarrow> (string \<rightharpoonup> string option) \<Rightarrow>
   (string \<rightharpoonup> string option) \<Rightarrow> drift_indicator list" where
  "mean_indicators py_float stats1_dict stats2_dict =
     (case (stats1_dict ''mean'', stats2_dict ''mean'') of
        (Some v1, Some v2) \<Rightarrow>
          (case py_float v1 of
             None \<Rightarrow> []
           | Some mean1 \<Rightarrow>
               (case py_float v2 of
                  None \<Rightarrow> []
                | Some mean2 \<Rightarrow>
                    let mean_diff = \<bar>mean2 - mean1\<bar>;
                        mean_change_pct = (if mean1 \<noteq> 0 then (mean_diff / \<bar>mean1\<bar>) * 100 else 0)
                    in if mean_change_pct > 10
                       then [\<lparr>ind_type = ''mean_change'', ind_value = mean_change_pct,
                              ind_threshold = 10\<rparr>]
                       else []))
      | _ \<Rightarrow> [])"

definition stddev_indicators ::
  "(string option \<Rightarrow> real option) \<Rightarrow> (string \<rightharpoonup> string option) \<Rightarrow>
   (string \<rightharpoonup> string option) \<Rightarrow> drift_indicator list" where
  "stddev_indicators py_float stats1_dict stats2_dict =
     (case (stats1_dict ''stddev'', stats2_dict ''stddev'') of
        (Some v1, Some v2) \<Rightarrow>
          (case py_float v1 of
             None \<Rightarrow> []
           | Some std1 \<Rightarrow>
               (case py_float v2 of
                  None \<Rightarrow> []
                | Some std2 \<Rightarrow>
                    let std_diff = \<bar>std2 - std1\<bar>;
                        std_change_pct = (if std1 \<noteq> 0 then (std_diff / std1) * 100 else 0)
                    in if std_change_pct > 20
                       then [\<lparr>ind_type = ''stddev_change'', ind_value = std_change_pct,
                              ind_threshold = 20\<rparr>]
                       else []))
      | _ \<Rightarrow> [])"

text \<open>The list \<open>drift_indicators\<close> built for one column, and its \<open>drift_detected\<close> flag.\<close>

definition drift_indicators ::
  "(string option \<Rightarrow> real option) \<Rightarrow> (string \<rightharpoonup> string option) \<Rightarrow>
   (string \<rightharpoonup> string option) \<Rightarrow> drift_indicator list" where
  "drift_indicators py_float stats1_dict stats2_dict =
     mean_indicators py_float stats1_dict stats2_dict @
     stddev_indicators py_float stats1_dict stats2_dict"

definition drift_detected ::
  "(string option \<Rightarrow> real option) \<Rightarrow> (string \<rightharpoonup> string option) \<Rightarrow>
   (string \<rightharpoonup> string option) \<Rightarrow> bool" where
  "drift_detected py_float stats1_dict stats2_dict =
     (length (drift_indicators py_float stats1_dict stats2_dict) > 0)"

text \<open>Example statistics, and a finite table standing for \<open>float\<close> on them.\<close>

definition float_table :: "string option \<Rightarrow> real option" where
  "float_table v =
     (case v of
        None \<Rightarrow> None
      | Some s \<Rightarrow> map_of [(''0.0'', 0), (''1.5'', 3 / 2), (''4.0'', 4), (''1000000.0'', 1000000)] s)"

definition zero_mean_stats :: "string \<rightharpoonup> string option" where
  "zero_mean_stats = map_of [(''count'', Some ''30''), (''mean'', Some ''0.0''),
     (''stddev'', Some ''1.5''), (''min'', Some ''-3''), (''max'', Some ''3'')]"

definition shifted_stats :: "string \<rightharpoonup> string option" where
  "shifted_stats = map_of [(''count'', Some ''30''), (''mean'', Some ''1000000.0''),
     (''stddev'', Some ''4.0''), (''min'', Some ''999990''), (''max'', Some ''1000010'')]"

section \<open>Properties of the chunk comparator\<close>

lemma inner_join_count_sum:
  "inner_join_count ks1 ks2 = sum_list (map (count_list ks2) ks1)"
proof -
  have inner: "length (concat (map (\<lambda>b. if a = b then [(a, b)] else []) ks)) = count_list ks a"
    for a :: 'a and ks
    by (induction ks) auto
  show ?thesis
    unfolding inner_join_count_def
    by (induction ks1) (simp_all add: inner)
qed

text \<open>
  The inner join pairs every occurrence of a key on one side with every occurrence on the
  other: a key contributes the product of its multiplicities.
\<close>

lemma inner_join_count_product:
  "inner_join_count ks1 ks2 = (\<Sum>k\<in>set ks1. count_list ks1 k * count_list ks2 k)"
  by (simp add: inner_join_count_sum sum_list_map_eq_sum_count)

lemma left_anti_count_le: "left_anti_count ks1 ks2 \<le> length ks1"
  by (simp add: left_anti_count_def)

lemma chunk_id_compare_data_chunks:
  "chunk_id (compare_data_chunks c1 c2 cid) = cid"
  by (simp add: compare_data_chunks_def error_result_def Let_def)

lemma compare_data_chunks_nonneg:
  "0 \<le> get0 (only_in_dataset1 (compare_data_chunks c1 c2 cid)) \<and>
   0 \<le> get0 (only_in_dataset2 (compare_data_chunks c1 c2 cid))"
  by (simp add: compare_data_chunks_def error_result_def get0_def Let_def)

text \<open>
  Claim C1 does not hold of the code. Two chunks of three rows each, all with the content
  key \<open>Oslo\<close>: the smaller multiplicity of the key is 3, so the claim has 3 matches and
  \<open>matches + onlyInSource \<le> 3\<close>. The code counts the rows of the inner join
  of the two key columns, which pairs every source row with every destination row of the
  same key: it reports 9 matches for 3 source rows (beside \<open>total_rows = 6\<close>), and its own
  \<open>match_percentage\<close>, the matches over the larger row count, is 300.
\<close>

theorem compare_data_chunks_duplicate_keys:
  "compare_data_chunks dup_chunk dup_chunk 0 =
     \<lparr>chunk_id = 0, error = None, matches = Some 9, differences = None,
      only_in_dataset1 = Some 0, only_in_dataset2 = Some 0, total_rows = Some 6,
      common_columns = Some [''city''], match_percentage = Some 300\<rparr>
   \<and> comparison_keys [''city''] dup_chunk = [''Oslo'', ''Oslo'', ''Oslo'']
   \<and> df_count dup_chunk = 3"
  by code_simp

theorem compare_data_chunks_duplicate_keys_witness:
  "get0 (matches (compare_data_chunks dup_chunk dup_chunk 0)) +
   get0 (only_in_dataset1 (compare_data_chunks dup_chunk dup_chunk 0)) = 9
   \<and> int (df_count dup_chunk) = 3"
  using compare_data_chunks_duplicate_keys by (simp add: get0_def)

text \<open>
  Without a repeated key the comparator does what the claim says: three source rows and two
  destination rows with one key in common.
\<close>

lemma compare_data_chunks_distinct_keys:
  "compare_data_chunks trio_chunk uniq_chunk 0 =
     \<lparr>chunk_id = 0, error = None, matches = Some 1, differences = None,
      only_in_dataset1 = Some 2, only_in_dataset2 = Some 1, total_rows = Some 5,
      common_columns = Some [''city''], match_percentage = Some (100 / 3)\<rparr>"
  by code_simp

text \<open>
  Column references are resolved as Spark does: a common column whose name holds a dot is
  not resolved and the comparison yields the error dict, and \<open>__row_id\<close> also denotes a
  column named \<open>__ROW_ID\<close>.
\<close>

lemma resolve_examples:
  "resolve [''a.b'', ''__row_id''] ''a.b'' = None"
  "resolve [''city'', ''__ROW_ID''] ''__row_id'' = Some 1"
  "resolve [''City'', ''city''] ''city'' = None"
  by code_simp+

section \<open>Properties of the aggregator\<close>

lemma agg_step_fields:
  "acc_failed (agg_step s r) = acc_failed s + (if error r = None then 0 else 1)"
  "acc_only_in_1 (agg_step s r) = acc_only_in_1 s + (if error r = None then get0 (only_in_dataset1 r) else 0)"
  "acc_only_in_2 (agg_step s r) = acc_only_in_2 s + (if error r = None then get0 (only_in_dataset2 r) else 0)"
  "acc_matches (agg_step s r) = acc_matches s + (if error r = None then get0 (matches r) else 0)"
  "acc_rows (agg_step s r) = acc_rows s + (if error r = None then get0 (total_rows r) else 0)"
  by (simp_all add: agg_step_def split: option.splits)

lemma agg_loop_nonneg:
  assumes "\<forall>r\<in>set rs. error r = None \<longrightarrow> 0 \<le> get0 (only_in_dataset1 r) \<and> 0 \<le> get0 (only_in_dataset2 r)"
    and "0 \<le> acc_only_in_1 s" and "0 \<le> acc_only_in_2 s"
  shows "0 \<le> acc_only_in_1 (agg_loop s rs) \<and> 0 \<le> acc_only_in_2 (agg_loop s rs)"
  using assms
proof (induction rs arbitrary: s)
  case Nil
  then show ?case by simp
next
  case (Cons r rs)
  have "0 \<le> acc_only_in_1 (agg_step s r)" "0 \<le> acc_only_in_2 (agg_step s r)"
    using Cons.prems by (auto simp add: agg_step_fields)
  with Cons.IH [of "agg_step s r"] Cons.prems(1) show ?case by simp
qed

text \<open>
  The flag half of the aggregator invariant holds for every list of results of the chunk
  comparator: \<open>datasets_match\<close> is true exactly when both one-sided totals are zero and no
  chunk failed (the one-sided counts are never negative, so their sum is zero only when both
  are).
\<close>

lemma aggregate_datasets_match_iff:
  "datasets_match (aggregate_chunk_results (map (\<lambda>(c1, c2, cid). compare_data_chunks c1 c2 cid) pairs))
      \<longleftrightarrow> total_only_in_dataset1 (aggregate_chunk_results (map (\<lambda>(c1, c2, cid). compare_data_chunks c1 c2 cid) pairs)) = 0
         \<and> total_only_in_dataset2 (aggregate_chunk_results (map (\<lambda>(c1, c2, cid). compare_data_chunks c1 c2 cid) pairs)) = 0
         \<and> failed_chunks (aggregate_chunk_results (map (\<lambda>(c1, c2, cid). compare_data_chunks c1 c2 cid) pairs)) = 0"
proof -
  let ?rs = "map (\<lambda>(c1, c2, cid). compare_data_chunks c1 c2 cid) pairs"
  let ?s = "agg_loop agg_init ?rs"
  have nn: "0 \<le> acc_only_in_1 ?s \<and> 0 \<le> acc_only_in_2 ?s"
    by (rule agg_loop_nonneg) (auto simp add: compare_data_chunks_nonneg agg_init_def)
  then show ?thesis
    by (auto simp add: aggregate_chunk_results_def Let_def)
qed

text \<open>
  Claim C2 does not hold of the code. The list of chunk results is the one result of comparing
  two chunks of three rows each, all with the content key \<open>Oslo\<close>. The claim has
  \<open>totalMatches + totalOnlyInSource + totalOnlyInDestination \<le> totalRowsAcrossChunks\<close>; the
  aggregate of the code has 9 matches, no one-sided rows and 6 rows processed, so the sum
  is 9 against 6, with \<open>datasets_match\<close> true and no failed chunk. The aggregate's own
  \<open>match_percentage\<close>, the matches over the rows processed less the differences, is 150.
  The excess is the one of the chunk comparator, whose inner join counts a repeated key
  once per pair of rows.
\<close>

theorem aggregate_chunk_results_duplicate_keys:
  "aggregate_chunk_results [compare_data_chunks dup_chunk dup_chunk 0] =
     \<lparr>total_matches = 9, total_only_in_dataset1 = 0, total_only_in_dataset2 = 0,
      total_differences = 0, total_rows_processed = 6, successful_chunks = 1,
      failed_chunks = 0, total_chunks = 1, errors = [], datasets_match = True\<rparr>
   \<and> aggregate_match_percentage [compare_data_chunks dup_chunk dup_chunk 0] = 150"
  by code_simp

theorem aggregate_chunk_results_duplicate_keys_witness:
  "total_matches (aggregate_chunk_results [compare_data_chunks dup_chunk dup_chunk 0])
     + total_only_in_dataset1 (aggregate_chunk_results [compare_data_chunks dup_chunk dup_chunk 0])
     + total_only_in_dataset2 (aggregate_chunk_results [compare_data_chunks dup_chunk dup_chunk 0]) = 9
   \<and> total_rows_processed (aggregate_chunk_results [compare_data_chunks dup_chunk dup_chunk 0]) = 6"
  using aggregate_chunk_results_duplicate_keys by simp

section \<open>Properties of the Chunker\<close>

lemma zip_drop: 
  "zip [n \<leftarrow> cols. n \<noteq> c] (map snd [p \<leftarrow> zip cols row. fst p \<noteq> c]) = [p \<leftarrow> zip cols row. fst p \<noteq> c]"
proof (induction cols arbitrary: row)
  case Nil
  then show ?case by simp
next
  case (Cons a cols)
  then show ?case by (cases row) auto
qed

lemma map_of_filter_other:
  "k \<noteq> c \<Longrightarrow> map_of [p \<leftarrow> ps. fst p \<noteq> c] k = map_of ps k"
  by (induction ps) auto

lemma columns_drop_col: "columns (drop_col c df) = [n \<leftarrow> columns df. n \<noteq> c]"
  by (simp add: columns_def drop_col_def filter_map comp_def)

lemma row_ids_drop_col:
  "c \<noteq> ''__row_id'' \<Longrightarrow> row_ids (drop_col c df) = row_ids df"
proof -
  assume c: "c \<noteq> ''__row_id''"
  have "cell_at (drop_col c df) (map snd [p \<leftarrow> zip (columns df) row. fst p \<noteq> c]) ''__row_id''
        = cell_at df row ''__row_id''" for row
    unfolding cell_at_def columns_drop_col zip_drop
    using c by (simp add: map_of_filter_other)
  then show ?thesis
    by (simp add: row_ids_def drop_col_def comp_def)
qed

lemma cell_at_filter_rows: "cell_at (filter_rows p df) = cell_at df"
  by (rule ext)+ (simp add: cell_at_def filter_rows_def columns_def)

lemma row_ids_filter_rows:
  "row_ids (filter_rows p df) = map (\<lambda>row. cell_at df row ''__row_id'') (filter p (rows df))"
  unfolding row_ids_def cell_at_filter_rows by (simp add: filter_rows_def)

lemma row_ids_chunk_of:
  "row_ids (chunk_of df cs i) = [v \<leftarrow> row_ids df. row_chunk_id cs v = Some i]"
proof -
  have "row_ids (chunk_of df cs i) =
      row_ids (filter_rows (\<lambda>row. row_chunk_id cs (cell_at df row ''__row_id'') = Some i) df)"
    by (simp add: chunk_of_def row_ids_drop_col)
  also have "\<dots> = [v \<leftarrow> row_ids df. row_chunk_id cs v = Some i]"
    unfolding row_ids_filter_rows by (simp add: row_ids_def filter_map comp_def)
  finally show ?thesis .
qed

lemma df_count_row_ids: "df_count df = length (row_ids df)"
  by (simp add: df_count_def row_ids_def)

lemma div_eq_range:
  assumes "0 < (c::nat)"
  shows "k div c = i \<longleftrightarrow> i * c \<le> k \<and> k < (i + 1) * c"
  using assms by (metis less_eq_div_iff_mult_less_eq less_Suc_eq_le div_less_iff_less_mult Suc_eq_plus1 le_antisym order_refl)

lemma filter_div_upt:
  assumes "0 < (c::nat)"
  shows "[k \<leftarrow> [0..<n]. k div c = i] = [i * c ..< min ((i + 1) * c) n]"
proof (rule sorted_distinct_set_unique)
  show "set [k \<leftarrow> [0..<n]. k div c = i] = set [i * c ..< min ((i + 1) * c) n]"
    unfolding div_eq_range [OF assms] by auto
  show "sorted [k \<leftarrow> [0..<n]. k div c = i]" by (simp add: sorted_wrt_filter)
  show "distinct [k \<leftarrow> [0..<n]. k div c = i]" by simp
  show "sorted [i * c ..< min ((i + 1) * c) n]" by simp
  show "distinct [i * c ..< min ((i + 1) * c) n]" by simp
qed

lemma row_chunk_id_nat:
  assumes "0 < cs" and "k div cs \<le> 2147483647"
  shows "row_chunk_id (int cs) (LongV (int k)) = Some (int (k div cs))"
proof -
  have "trunc_div (int k) (int cs) = int (k div cs)"
    using assms(1) by (simp add: trunc_div_def zdiv_int)
  moreover have "cast_int32 (int (k div cs)) = int (k div cs)"
    using assms(2) by (simp add: cast_int32_def)
  ultimately show ?thesis
    using assms(1) by (simp add: row_chunk_id_def)
qed

lemma num_chunks_nat_bounds:
  assumes "0 < (cs::nat)"
  shows "n \<le> ((n + cs - 1) div cs) * cs \<and> ((n + cs - 1) div cs) * cs < n + cs"
proof -
  have a: "((n + cs - 1) div cs) * cs \<le> n + cs - 1"
    by (rule div_times_less_eq_dividend)
  have b: "n + cs - 1 < cs + ((n + cs - 1) div cs) * cs"
    using assms by (rule dividend_less_div_times)
  from a b assms show ?thesis by linarith
qed

lemma num_chunks_ceiling:
  assumes "0 < (cs::nat)"
  shows "int ((n + cs - 1) div cs) = \<lceil>real n / real cs\<rceil>"
proof -
  let ?m = "(n + cs - 1) div cs"
  from num_chunks_nat_bounds [OF assms, of n]
  have "real n \<le> real (?m * cs)" and "real (?m * cs) < real (n + cs)"
    by (simp_all only: of_nat_le_iff of_nat_less_iff)
  then have "real n \<le> real ?m * real cs" and "(real ?m - 1) * real cs < real n"
    by (simp_all add: algebra_simps)
  with assms have "real n / real cs \<le> real ?m" and "real ?m - 1 < real n / real cs"
    by (simp_all add: pos_divide_le_eq pos_less_divide_eq)
  then have "\<lceil>real n / real cs\<rceil> = int ?m"
    by (intro ceiling_unique) simp_all
  then show ?thesis by simp
qed

lemma num_chunks_int:
  assumes "0 < (cs::nat)"
  shows "nat ((int n + int cs - 1) div int cs) = (n + cs - 1) div cs"
proof -
  have "int n + int cs - 1 = int (n + cs - 1)"
    using assms by simp
  then show ?thesis
    by (simp only: zdiv_int [symmetric] nat_int)
qed

lemma chunk_dataframe_positive:
  assumes "0 < cs" and "''__row_id'' \<in> set (columns df)"
  shows "chunk_dataframe df (int cs) =
     Inr (map (\<lambda>i. chunk_of df (int cs) (int i)) [0..<(df_count df + cs - 1) div cs])"
  using assms by (simp add: chunk_dataframe_def py_floordiv_def Let_def num_chunks_int)

lemma row_ids_chunk_of_perm:
  assumes "0 < cs" and "mset (row_ids df) = mset (map (LongV \<circ> int) [0..<df_count df])"
    and "df_count df \<le> 2147483648 * cs"
  shows "mset (row_ids (chunk_of df (int cs) (int i))) =
         mset (map (LongV \<circ> int) [i * cs ..< min ((i + 1) * cs) (df_count df)])"
proof -
  let ?q = "\<lambda>v. row_chunk_id (int cs) v = Some (int i)"
  have bound: "k div cs \<le> 2147483647" if "k < df_count df" for k
  proof -
    from that assms(3) have "k < 2147483648 * cs" by linarith
    then have "k div cs < 2147483648"
      using assms(1) by (simp add: div_less_iff_less_mult)
    then show ?thesis by simp
  qed
  have "mset (row_ids (chunk_of df (int cs) (int i))) = filter_mset ?q (mset (row_ids df))"
    by (simp add: row_ids_chunk_of)
  also have "\<dots> = mset [v \<leftarrow> map (LongV \<circ> int) [0..<df_count df]. ?q v]"
    by (simp only: assms(2) mset_filter)
  also have "[v \<leftarrow> map (LongV \<circ> int) [0..<df_count df]. ?q v] =
      map (LongV \<circ> int) [k \<leftarrow> [0..<df_count df]. ?q (LongV (int k))]"
    by (simp add: filter_map comp_def)
  also have "[k \<leftarrow> [0..<df_count df]. ?q (LongV (int k))] = [k \<leftarrow> [0..<df_count df]. k div cs = i]"
    by (rule filter_cong) (simp_all add: row_chunk_id_nat [OF assms(1) bound])
  also have "[k \<leftarrow> [0..<df_count df]. k div cs = i] = [i * cs ..< min ((i + 1) * cs) (df_count df)]"
    by (rule filter_div_upt [OF assms(1)])
  finally show ?thesis .
qed

text \<open>
  What the Chunker does on a source whose row identifiers are \<open>0, \<dots>, rowCount - 1\<close> in
  some order, with a quotient that the 32-bit cast leaves alone: it returns
  \<open>ceil(rowCount / chunkSize)\<close> chunks, and chunk \<open>i\<close> holds exactly the rows with
  identifiers in \<open>[i * chunkSize, min ((i + 1) * chunkSize, rowCount))\<close>, so every chunk but
  the last holds \<open>chunkSize\<close> rows and the last holds the remainder.
\<close>

lemma chunk_dataframe_consecutive_ids:
  assumes "0 < cs" and "''__row_id'' \<in> set (columns df)"
    and "mset (row_ids df) = mset (map (LongV \<circ> int) [0..<df_count df])"
    and "df_count df \<le> 2147483648 * cs"
  shows "\<exists>chunks. chunk_dataframe df (int cs) = Inr chunks
     \<and> int (length chunks) = \<lceil>real (df_count df) / real cs\<rceil>
     \<and> (\<forall>i<length chunks.
            mset (row_ids (chunks ! i)) =
              mset (map (LongV \<circ> int) [i * cs ..< min ((i + 1) * cs) (df_count df)])
            \<and> df_count (chunks ! i) = (if i + 1 < length chunks then cs else df_count df - i * cs))"
proof -
  let ?n = "df_count df"
  let ?m = "(?n + cs - 1) div cs"
  let ?chunks = "map (\<lambda>i. chunk_of df (int cs) (int i)) [0..<?m]"
  have run: "chunk_dataframe df (int cs) = Inr ?chunks"
    by (rule chunk_dataframe_positive [OF assms(1,2)])
  have len: "length ?chunks = ?m"
    by simp
  have ceil: "int (length ?chunks) = \<lceil>real ?n / real cs\<rceil>"
    by (simp only: len num_chunks_ceiling [OF assms(1)])
  from num_chunks_nat_bounds [OF assms(1), of ?n]
  have lo: "?n \<le> ?m * cs" and hi: "?m * cs < ?n + cs"
    by simp_all
  have parts: "mset (row_ids (?chunks ! i)) =
              mset (map (LongV \<circ> int) [i * cs ..< min ((i + 1) * cs) ?n])
            \<and> df_count (?chunks ! i) = (if i + 1 < length ?chunks then cs else ?n - i * cs)"
    if i: "i < length ?chunks" for i
  proof -
    from i have im: "i < ?m" by simp
    then have nth: "?chunks ! i = chunk_of df (int cs) (int i)"
      by simp
    have ids: "mset (row_ids (?chunks ! i)) =
              mset (map (LongV \<circ> int) [i * cs ..< min ((i + 1) * cs) ?n])"
      unfolding nth by (rule row_ids_chunk_of_perm [OF assms(1) assms(3) assms(4)])
    have "df_count (?chunks ! i) = size (mset (row_ids (?chunks ! i)))"
      by (simp add: df_count_row_ids)
    also have "\<dots> = min ((i + 1) * cs) ?n - i * cs"
      unfolding ids by simp
    finally have cnt: "df_count (?chunks ! i) = min ((i + 1) * cs) ?n - i * cs" .
    have "min ((i + 1) * cs) ?n - i * cs = (if i + 1 < ?m then cs else ?n - i * cs)"
    proof (cases "i + 1 < ?m")
      case True
      then have "(i + 1) * cs + cs \<le> ?m * cs"
        by (metis Suc_leI add.commute mult_Suc mult_le_mono1)
      with hi have "(i + 1) * cs < ?n" by linarith
      with True show ?thesis by simp
    next
      case False
      with im have "i + 1 = ?m" by linarith
      with lo have "?n \<le> (i + 1) * cs" by simp
      with False show ?thesis by simp
    qed
    with cnt ids show ?thesis by (simp only: len)
  qed
  from run ceil parts show ?thesis by blast
qed

text \<open>
  Claim C3 does not hold of the code. The Chunker assigns a row to chunk
  \<open>int(__row_id / chunkSize)\<close>, whatever the row identifiers are, and the identifiers that the
  connectors assign with \<open>monotonically_increasing_id\<close> are consecutive only within one
  partition. On four rows in two partitions (identifiers \<open>0\<close>, \<open>2^33\<close>, \<open>2^33 + 1\<close>,
  \<open>2^33 + 2\<close>) and chunk size 2 the Chunker returns \<open>ceil(4 / 2) = 2\<close> chunks, but the
  first holds one row and the second none: the first chunk, which is not the last, holds
  fewer than \<open>chunkSize\<close> rows, and three of the four rows are in no chunk, where the claim
  has the chunks cover all of \<open>[0, rowCount)\<close>.
\<close>

theorem chunk_dataframe_partitioned_ids:
  "chunk_dataframe two_partitions 2 = Inr
     [\<lparr>schema = [(''v'', StringType), (''__row_id'', LongType)], rows = [[StrV ''a'', LongV 0]]\<rparr>,
      \<lparr>schema = [(''v'', StringType), (''__row_id'', LongType)], rows = []\<rparr>]
   \<and> df_count two_partitions = 4
   \<and> map (row_chunk_id 2) (row_ids two_partitions) = [Some 0, Some 2147483647, Some 2147483647, Some 2147483647]"
  by code_simp

theorem chunk_dataframe_partitioned_ids_witness:
  "(\<exists>chunks. chunk_dataframe two_partitions 2 = Inr chunks \<and> length chunks = 2
      \<and> df_count (chunks ! 0) = 1 \<and> df_count (chunks ! 1) = 0)
   \<and> df_count two_partitions = 4"
  using chunk_dataframe_partitioned_ids by (simp add: df_count_def)

text \<open>The five-row example in chunks of two.\<close>

lemma chunk_dataframe_example:
  "chunk_dataframe id_chunk 2 = Inr
     [\<lparr>schema = [(''__row_id'', LongType), (''v'', StringType)],
       rows = [[LongV 0, StrV ''a''], [LongV 1, StrV ''b'']]\<rparr>,
      \<lparr>schema = [(''__row_id'', LongType), (''v'', StringType)],
       rows = [[LongV 3, StrV ''d''], [LongV 2, StrV ''c'']]\<rparr>,
      \<lparr>schema = [(''__row_id'', LongType), (''v'', StringType)],
       rows = [[LongV 4, StrV ''e'']]\<rparr>]"
  by (simp add: chunk_dataframe_def py_floordiv_def df_count_def id_chunk_def columns_def
      chunk_of_def filter_rows_def drop_col_def cell_at_def row_chunk_id_def trunc_div_def
      cast_int32_def upt_rec)

text \<open>
  Claim C8, as amended. For every source, the Chunker fails for chunk size zero, with the
  \<open>ZeroDivisionError\<close> of the chunk-count computation (the code has no validation and no
  \<open>InvalidConfiguration\<close> error). For a negative chunk size and a source with a row-identifier
  column it raises nothing and returns a chunk sequence, of
  \<open>max 0 ((rowCount + chunkSize - 1) div chunkSize)\<close> chunks.
\<close>

theorem chunk_dataframe_nonpositive:
  "chunk_dataframe df 0 = Inl ZeroDivisionError \<and>
   (chunk_size < 0 \<and> ''__row_id'' \<in> set (columns df) \<longrightarrow>
      (\<exists>chunks. chunk_dataframe df chunk_size = Inr chunks \<and>
         length chunks = nat ((int (df_count df) + chunk_size - 1) div chunk_size)))"
  by (simp add: chunk_dataframe_def py_floordiv_def Let_def)

theorem chunk_dataframe_nonpositive_witness:
  "(- 2 :: int) < 0 \<and> ''__row_id'' \<in> set (columns id_chunk) \<and>
   chunk_dataframe id_chunk 0 = Inl ZeroDivisionError \<and>
   (\<exists>chunks. chunk_dataframe id_chunk (- 2) = Inr chunks \<and>
         length chunks = nat ((int (df_count id_chunk) + (- 2) - 1) div (- 2)))"
proof -
  have h1: "(- 2 :: int) < 0" by simp
  have h2: "''__row_id'' \<in> set (columns id_chunk)"
    by (simp add: columns_def id_chunk_def)
  from chunk_dataframe_nonpositive [of id_chunk "- 2"] h1 h2 show ?thesis by blast
qed

text \<open>
  The claim as stated fails for chunk size \<open>-2\<close> on a five-row source: the Chunker
  returns the empty chunk sequence.
\<close>

theorem chunk_dataframe_negative_size_counterexample:
  "chunk_dataframe id_chunk (- 2) = Inr []"
  by (simp add: chunk_dataframe_def py_floordiv_def df_count_def id_chunk_def columns_def)

section \<open>Properties of the parallel comparison coordinator\<close>

lemma filter_same_key_distinct:
  assumes "distinct (map f xs)" and "k \<in> set xs"
  shows "filter (\<lambda>x. f k = f x) xs = [k]"
  using assms
proof (induction xs)
  case Nil
  then show ?case by simp
next
  case (Cons a xs)
  show ?case
  proof (cases "a = k")
    case True
    with Cons.prems(1) have "\<forall>x\<in>set xs. f k \<noteq> f x" by auto
    then have "filter (\<lambda>x. f k = f x) xs = []" by (simp add: filter_empty_conv)
    with True show ?thesis by simp
  next
    case False
    with Cons.prems have kx: "k \<in> set xs" by auto
    then have "f k \<in> f ` set xs" by (rule imageI)
    with Cons.prems(1) have "f k \<noteq> f a" by auto
    with Cons.IH Cons.prems(1) kx show ?thesis by simp
  qed
qed

lemma sort_key_permutation:
  assumes "mset xs = mset ys" and "sorted (map f ys)" and "distinct (map f ys)"
  shows "sort_key f xs = ys"
proof (rule properties_for_sort_key)
  show "mset ys = mset xs" using assms(1) by simp
  show "sorted (map f ys)" by (rule assms(2))
  fix k assume k: "k \<in> set ys"
  have "mset (map f xs) = mset (map f ys)"
    using assms(1) by simp
  then have "distinct (map f xs) \<longleftrightarrow> distinct (map f ys)"
    by (rule mset_eq_imp_distinct_iff)
  with assms(3) have dx: "distinct (map f xs)" by simp
  have "set xs = set ys" using assms(1) by (rule mset_eq_setD)
  with k have kx: "k \<in> set xs" by simp
  show "filter (\<lambda>x. f k = f x) ys = filter (\<lambda>x. f k = f x) xs"
    by (simp add: filter_same_key_distinct [OF assms(3) k] filter_same_key_distinct [OF dx kx])
qed

lemma chunk_ids_submitted:
  "map (chunk_id \<circ> (\<lambda>(i, chunk1, chunk2). compare_data_chunks chunk1 chunk2 i)) (submitted chunks1 chunks2)
   = [0..<length (zip chunks1 chunks2)]"
proof -
  have "chunk_id \<circ> (\<lambda>(i, chunk1, chunk2). compare_data_chunks chunk1 chunk2 i) = fst"
    by (rule ext) (simp add: case_prod_beta chunk_id_compare_data_chunks)
  then show ?thesis
    by (simp add: submitted_def)
qed

lemma parallel_chunk_comparison_in_order:
  assumes "mset (as_completed (submitted chunks1 chunks2)) = mset (submitted chunks1 chunks2)"
  shows "parallel_chunk_comparison as_completed chunks1 chunks2 =
         map (\<lambda>(i, chunk1, chunk2). compare_data_chunks chunk1 chunk2 i) (submitted chunks1 chunks2)"
proof -
  let ?f = "\<lambda>(i, chunk1, chunk2). compare_data_chunks chunk1 chunk2 i"
  let ?ts = "submitted chunks1 chunks2"
  have ids: "map chunk_id (map ?f ?ts) = [0..<length (zip chunks1 chunks2)]"
    using chunk_ids_submitted [of chunks1 chunks2] by simp
  have "sort_key chunk_id (map ?f (as_completed ?ts)) = map ?f ?ts"
  proof (rule sort_key_permutation)
    show "mset (map ?f (as_completed ?ts)) = mset (map ?f ?ts)"
      using assms by simp
    show "sorted (map chunk_id (map ?f ?ts))" by (simp only: ids sorted_upt)
    show "distinct (map chunk_id (map ?f ?ts))" by (simp only: ids distinct_upt)
  qed
  then show ?thesis
    by (simp add: parallel_chunk_comparison_def Let_def)
qed

text \<open>
  Claim C9. For every pair of equal-length chunk sequences, whatever the order in which the
  comparison tasks complete, the coordinator returns a list in which the chunk ids are
  \<open>0, \<dots>, n - 1\<close> in ascending order, each exactly once; its \<open>i\<close>-th entry is the result
  of comparing the \<open>i\<close>-th pair; and any two completion orders yield the same list.
\<close>

theorem parallel_chunk_comparison_deterministic:
  assumes "length chunks1 = length chunks2"
    and "mset (order1 (submitted chunks1 chunks2)) = mset (submitted chunks1 chunks2)"
    and "mset (order2 (submitted chunks1 chunks2)) = mset (submitted chunks1 chunks2)"
  shows "map chunk_id (parallel_chunk_comparison order1 chunks1 chunks2) = [0..<length chunks1]
       \<and> (\<forall>i<length chunks1. parallel_chunk_comparison order1 chunks1 chunks2 ! i =
              compare_data_chunks (chunks1 ! i) (chunks2 ! i) i)
       \<and> parallel_chunk_comparison order1 chunks1 chunks2 = parallel_chunk_comparison order2 chunks1 chunks2"
proof -
  let ?f = "\<lambda>(i, chunk1, chunk2). compare_data_chunks chunk1 chunk2 i"
  let ?ts = "submitted chunks1 chunks2"
  note r1 = parallel_chunk_comparison_in_order [of order1 chunks1 chunks2, OF assms(2)]
  note r2 = parallel_chunk_comparison_in_order [of order2 chunks1 chunks2, OF assms(3)]
  have len: "length (zip chunks1 chunks2) = length chunks1"
    using assms(1) by simp
  have a: "map chunk_id (parallel_chunk_comparison order1 chunks1 chunks2) = [0..<length chunks1]"
    using chunk_ids_submitted [of chunks1 chunks2] assms(1) by (simp add: r1)
  have b: "parallel_chunk_comparison order1 chunks1 chunks2 ! i =
              compare_data_chunks (chunks1 ! i) (chunks2 ! i) i" if "i < length chunks1" for i
    using that assms(1) by (simp add: r1 submitted_def)
  from a b r1 r2 show ?thesis by simp
qed

theorem parallel_chunk_comparison_deterministic_witness:
  "length [trio_chunk, uniq_chunk] = length [uniq_chunk, uniq_chunk]
   \<and> mset (rev (submitted [trio_chunk, uniq_chunk] [uniq_chunk, uniq_chunk]))
       = mset (submitted [trio_chunk, uniq_chunk] [uniq_chunk, uniq_chunk])
   \<and> mset ((\<lambda>xs. xs) (submitted [trio_chunk, uniq_chunk] [uniq_chunk, uniq_chunk]))
       = mset (submitted [trio_chunk, uniq_chunk] [uniq_chunk, uniq_chunk])
   \<and> map chunk_id (parallel_chunk_comparison rev [trio_chunk, uniq_chunk] [uniq_chunk, uniq_chunk])
       = [0..<length [trio_chunk, uniq_chunk]]
   \<and> parallel_chunk_comparison rev [trio_chunk, uniq_chunk] [uniq_chunk, uniq_chunk] ! 0 =
         compare_data_chunks trio_chunk uniq_chunk 0
   \<and> parallel_chunk_comparison rev [trio_chunk, uniq_chunk] [uniq_chunk, uniq_chunk] ! 1 =
         compare_data_chunks uniq_chunk uniq_chunk 1
   \<and> parallel_chunk_comparison rev [trio_chunk, uniq_chunk] [uniq_chunk, uniq_chunk]
       = parallel_chunk_comparison (\<lambda>xs. xs) [trio_chunk, uniq_chunk] [uniq_chunk, uniq_chunk]"
proof -
  have h1: "length [trio_chunk, uniq_chunk] = length [uniq_chunk, uniq_chunk]"
    by simp
  have h2: "mset (rev (submitted [trio_chunk, uniq_chunk] [uniq_chunk, uniq_chunk]))
       = mset (submitted [trio_chunk, uniq_chunk] [uniq_chunk, uniq_chunk])"
    by (rule mset_rev)
  have h3: "mset ((\<lambda>xs. xs) (submitted [trio_chunk, uniq_chunk] [uniq_chunk, uniq_chunk]))
       = mset (submitted [trio_chunk, uniq_chunk] [uniq_chunk, uniq_chunk])"
    by simp
  note T = parallel_chunk_comparison_deterministic
    [of "[trio_chunk, uniq_chunk]" "[uniq_chunk, uniq_chunk]" rev "\<lambda>xs. xs", OF h1 h2 h3]
  from T have a: "map chunk_id (parallel_chunk_comparison rev [trio_chunk, uniq_chunk] [uniq_chunk, uniq_chunk])
       = [0..<length [trio_chunk, uniq_chunk]]"
    by (rule conjunct1)
  from T have b: "\<forall>i<length [trio_chunk, uniq_chunk].
         parallel_chunk_comparison rev [trio_chunk, uniq_chunk] [uniq_chunk, uniq_chunk] ! i =
         compare_data_chunks ([trio_chunk, uniq_chunk] ! i) ([uniq_chunk, uniq_chunk] ! i) i"
    by (rule conjunct1 [OF conjunct2])
  from b have b0: "parallel_chunk_comparison rev [trio_chunk, uniq_chunk] [uniq_chunk, uniq_chunk] ! 0 =
         compare_data_chunks trio_chunk uniq_chunk 0"
    by simp
  from b have "1 < length [trio_chunk, uniq_chunk] \<longrightarrow>
         parallel_chunk_comparison rev [trio_chunk, uniq_chunk] [uniq_chunk, uniq_chunk] ! 1 =
         compare_data_chunks ([trio_chunk, uniq_chunk] ! 1) ([uniq_chunk, uniq_chunk] ! 1) 1"
    by (rule spec)
  then have b1: "parallel_chunk_comparison rev [trio_chunk, uniq_chunk] [uniq_chunk, uniq_chunk] ! 1 =
         compare_data_chunks uniq_chunk uniq_chunk 1"
    by simp
  from T have c: "parallel_chunk_comparison rev [trio_chunk, uniq_chunk] [uniq_chunk, uniq_chunk]
       = parallel_chunk_comparison (\<lambda>xs. xs) [trio_chunk, uniq_chunk] [uniq_chunk, uniq_chunk]"
    by (rule conjunct2 [OF conjunct2])
  from h1 h2 h3 a b0 b1 c show ?thesis by blast
qed

section \<open>Properties of fingerprinting\<close>

lemma count_list_distinct:
  "distinct ks \<Longrightarrow> count_list ks a = (if a \<in> set ks then 1 else 0)"
  by (induction ks) auto

lemma length_join_inner:
  "length (join_inner l r) = sum_list (map (\<lambda>a. length [b \<leftarrow> r. sql_eq (fst a) (fst b)]) l)"
proof -
  have inner: "length (concat (map (\<lambda>b. if sql_eq (fst a) (fst b) then [(fst a, snd a, snd b)] else []) r))
               = length [b \<leftarrow> r. sql_eq (fst a) (fst b)]" for a :: "cell \<times> 'a" and r :: "(cell \<times> 'b) list"
    by (induction r) auto
  show ?thesis
    unfolding join_inner_def by (induction l) (simp_all add: inner)
qed

lemma filter_sql_eq_remdups:
  "length [x \<leftarrow> remdups ks. sql_eq k x] = (if k \<noteq> Null \<and> k \<in> set ks then 1 else 0)"
proof (cases "k = Null")
  case True
  then show ?thesis by (simp add: sql_eq_def)
next
  case False
  then have "sql_eq k x \<longleftrightarrow> k = x" for x
    by (auto simp add: sql_eq_def)
  then have "length [x \<leftarrow> remdups ks. sql_eq k x] = length [x \<leftarrow> remdups ks. k = x]"
    by simp
  also have "\<dots> = count_list (remdups ks) k"
    by (induction ks) auto
  also have "\<dots> = (if k \<in> set ks then 1 else 0)"
    by (simp add: count_list_distinct)
  finally show ?thesis using False by simp
qed

lemma matches_in_groups:
  "length [b \<leftarrow> group_by_count ks. sql_eq k (fst b)] = (if k \<noteq> Null \<and> k \<in> set ks then 1 else 0)"
proof -
  have "[b \<leftarrow> group_by_count ks. sql_eq k (fst b)] =
        map (\<lambda>k. (k, count_list ks k)) [x \<leftarrow> remdups ks. sql_eq k x]"
    by (simp add: group_by_count_def filter_map comp_def)
  then show ?thesis
    by (simp only: length_map filter_sql_eq_remdups)
qed

lemma sum_list_indicator:
  "sum_list (map (\<lambda>a. if P a then 1 else 0) xs) = length (filter P xs)"
  by (induction xs) auto

lemma length_filter_remdups:
  "length (filter P (remdups ks)) = card {k \<in> set ks. P k}"
proof -
  have "distinct (filter P (remdups ks))" by simp
  then have "length (filter P (remdups ks)) = card (set (filter P (remdups ks)))"
    by (simp only: distinct_card)
  then show ?thesis by simp
qed

lemma common_count_card:
  "length (join_inner (group_by_count ks1) (group_by_count ks2)) =
   card {k \<in> set ks1. k \<noteq> Null \<and> k \<in> set ks2}"
proof -
  have "length (join_inner (group_by_count ks1) (group_by_count ks2)) =
        sum_list (map (\<lambda>k. if k \<noteq> Null \<and> k \<in> set ks2 then 1 else 0) (remdups ks1))"
    by (simp add: length_join_inner matches_in_groups) (simp add: group_by_count_def comp_def)
  then show ?thesis
    by (simp only: sum_list_indicator length_filter_remdups)
qed

lemma no_match_in_groups:
  "list_all (\<lambda>b. \<not> sql_eq k (fst b)) (group_by_count ks) \<longleftrightarrow> k = Null \<or> k \<notin> set ks"
  by (auto simp add: list_all_iff group_by_count_def sql_eq_def)

lemma only_count_card:
  "length (join_left_anti (group_by_count ks1) (group_by_count ks2)) =
   card {k \<in> set ks1. k = Null \<or> k \<notin> set ks2}"
proof -
  have "join_left_anti (group_by_count ks1) (group_by_count ks2) =
        map (\<lambda>k. (k, count_list ks1 k)) [k \<leftarrow> remdups ks1. k = Null \<or> k \<notin> set ks2]"
    unfolding join_left_anti_def no_match_in_groups
    by (simp add: group_by_count_def filter_map comp_def)
  then show ?thesis
    by (simp add: length_filter_remdups)
qed

lemma fingerprints_permuted:
  assumes "schema df' = schema df" and "mset (rows df') = mset (rows df)"
  shows "mset (fingerprints df') = mset (fingerprints df)"
proof -
  have "cell_at df' = cell_at df"
    by (rule ext)+ (simp add: cell_at_def columns_def assms(1))
  then show ?thesis
    by (simp add: fingerprints_def assms(2))
qed

lemma compare_fingerprints_sets:
  assumes "columns df1' = columns df1" and "columns df2' = columns df2"
    and "set (fingerprints df1') = set (fingerprints df1)"
    and "set (fingerprints df2') = set (fingerprints df2)"
    and "df_count df1' = df_count df1" and "df_count df2' = df_count df2"
  shows "compare_fingerprints df1' df2' = compare_fingerprints df1 df2"
proof -
  have c: "length (join_inner (group_by_count (fingerprints df1')) (group_by_count (fingerprints df2')))
         = length (join_inner (group_by_count (fingerprints df1)) (group_by_count (fingerprints df2)))"
    by (simp only: common_count_card assms(3,4))
  have o1: "length (join_left_anti (group_by_count (fingerprints df1')) (group_by_count (fingerprints df2')))
         = length (join_left_anti (group_by_count (fingerprints df1)) (group_by_count (fingerprints df2)))"
    by (simp only: only_count_card assms(3,4))
  have o2: "length (join_left_anti (group_by_count (fingerprints df2')) (group_by_count (fingerprints df1')))
         = length (join_left_anti (group_by_count (fingerprints df2)) (group_by_count (fingerprints df1)))"
    by (simp only: only_count_card assms(3,4))
  show ?thesis
    by (simp only: compare_fingerprints_def Let_def c o1 o2 assms(1,2,5,6))
qed

text \<open>
  Claim C5. Fingerprint comparison is order-independent: for every pair of fingerprinted
  sources, permuting the rows of either source leaves the whole result of
  \<open>compare_fingerprints\<close> unchanged, in particular \<open>common_fingerprints\<close>,
  \<open>only_in_dataset1\<close> and \<open>only_in_dataset2\<close> (and likewise the raised error, for a source
  without a fingerprint column).
\<close>

theorem compare_fingerprints_order_independent:
  assumes "schema df1' = schema df1" and "mset (rows df1') = mset (rows df1)"
    and "schema df2' = schema df2" and "mset (rows df2') = mset (rows df2)"
  shows "compare_fingerprints df1' df2' = compare_fingerprints df1 df2"
proof (rule compare_fingerprints_sets)
  show "columns df1' = columns df1" "columns df2' = columns df2"
    by (simp_all add: columns_def assms)
  show "set (fingerprints df1') = set (fingerprints df1)"
    using fingerprints_permuted [OF assms(1,2)] by (rule mset_eq_setD)
  show "set (fingerprints df2') = set (fingerprints df2)"
    using fingerprints_permuted [OF assms(3,4)] by (rule mset_eq_setD)
  show "df_count df1' = df_count df1"
    using mset_eq_length [OF assms(2)] by (simp add: df_count_def)
  show "df_count df2' = df_count df2"
    using mset_eq_length [OF assms(4)] by (simp add: df_count_def)
qed

lemmas fp_eval =
  compare_fingerprints_def fingerprints_def group_by_count_def join_inner_def join_left_anti_def
  sql_eq_def cell_at_def columns_def df_count_def Let_def

lemma compare_fingerprints_example:
  "compare_fingerprints fp_source fp_destination =
     Inr \<lparr>common_fingerprints = 1, fp_only_in_dataset1 = 1, fp_only_in_dataset2 = 1,
          total_dataset1 = 3, total_dataset2 = 2, fingerprints_match = False\<rparr>"
  by (simp add: fp_eval fp_source_def fp_destination_def)

theorem compare_fingerprints_order_independent_witness:
  "schema fp_source_permuted = schema fp_source \<and>
   mset (rows fp_source_permuted) = mset (rows fp_source) \<and>
   schema fp_destination_permuted = schema fp_destination \<and>
   mset (rows fp_destination_permuted) = mset (rows fp_destination) \<and>
   compare_fingerprints fp_source_permuted fp_destination_permuted =
     compare_fingerprints fp_source fp_destination"
proof -
  have h1: "schema fp_source_permuted = schema fp_source"
    by (simp add: fp_source_permuted_def fp_source_def)
  have h2: "mset (rows fp_source_permuted) = mset (rows fp_source)"
    by (simp add: fp_source_permuted_def fp_source_def)
  have h3: "schema fp_destination_permuted = schema fp_destination"
    by (simp add: fp_destination_permuted_def fp_destination_def)
  have h4: "mset (rows fp_destination_permuted) = mset (rows fp_destination)"
    by (simp add: fp_destination_permuted_def fp_destination_def)
  from compare_fingerprints_order_independent [OF h1 h2 h3 h4] h1 h2 h3 h4
  show ?thesis by blast
qed

lemmas fingerprint_eval =
  run_fingerprinting_comparison_def create_data_fingerprint_def with_column_def
  canonical_string_def concat_ws_def default_settings_def

lemma create_data_fingerprint_all_columns:
  "create_data_fingerprint H oslo_source None ''md5'' =
     Inr \<lparr>schema = [(''city'', StringType), (''__row_id'', LongType), (''__fingerprint'', StringType)],
          rows = [[StrV ''Oslo'', LongV 0, StrV (md5 H ''Oslo'')],
                  [StrV ''Bern'', LongV 1, StrV (md5 H ''Bern'')]]\<rparr>"
  by (simp add: fingerprint_eval fp_eval oslo_source_def nan_text_def trim_def lower_char_def
      isnan_accepts_def)

lemma create_data_fingerprint_no_columns:
  "create_data_fingerprint H df (Some []) ''md5'' =
     Inr (with_column ''__fingerprint'' StringType (\<lambda>row. StrV (md5 H '''')) df)"
  by (simp add: create_data_fingerprint_def canonical_string_def concat_ws_def)

text \<open>
  Claim C4 does not hold of the code. The docstring of \<open>create_data_fingerprint\<close> takes
  \<open>None\<close> for "all columns", and with \<open>None\<close> every column but \<open>__row_id\<close> is hashed
  (\<open>create_data_fingerprint_all_columns\<close>). The fingerprinting phase, however, reads the
  setting with \<open>settings.get('fingerprint_columns', [])\<close> and passes the empty list, which is
  not \<open>None\<close>: with no explicit subset configured, no column is hashed, every row gets the
  hash of the empty string, and two sources with different contents are reported to match.
\<close>

theorem run_fingerprinting_default_hashes_no_column:
  "run_fingerprinting_comparison H oslo_source rome_source default_settings =
     Inr (Some \<lparr>common_fingerprints = 1, fp_only_in_dataset1 = 0, fp_only_in_dataset2 = 0,
               total_dataset1 = 2, total_dataset2 = 2, fingerprints_match = True\<rparr>)
   \<and> create_data_fingerprint H oslo_source
        (Some (case fingerprint_columns default_settings of None \<Rightarrow> [] | Some cs \<Rightarrow> cs)) ''md5'' =
     Inr \<lparr>schema = [(''city'', StringType), (''__row_id'', LongType), (''__fingerprint'', StringType)],
          rows = [[StrV ''Oslo'', LongV 0, StrV (md5 H '''')],
                  [StrV ''Bern'', LongV 1, StrV (md5 H '''')]]\<rparr>"
  by (simp add: fingerprint_eval fp_eval oslo_source_def rome_source_def)

theorem run_fingerprinting_default_hashes_no_column_witness:
  "run_fingerprinting_comparison sample_hashes oslo_source rome_source default_settings =
     Inr (Some \<lparr>common_fingerprints = 1, fp_only_in_dataset1 = 0, fp_only_in_dataset2 = 0,
               total_dataset1 = 2, total_dataset2 = 2, fingerprints_match = True\<rparr>)"
  using run_fingerprinting_default_hashes_no_column [of sample_hashes] by (rule conjunct1)

section \<open>Properties of the drift detector\<close>

lemma mean_indicators_zero_baseline:
  assumes "stats1_dict ''mean'' = Some v1" and "py_float v1 = Some 0"
  shows "mean_indicators py_float stats1_dict stats2_dict = []"
  using assms by (simp add: mean_indicators_def split: option.splits)

lemma stddev_indicators_type:
  "ind \<in> set (stddev_indicators py_float stats1_dict stats2_dict) \<Longrightarrow> ind_type ind = ''stddev_change''"
  by (auto simp add: stddev_indicators_def Let_def split: option.splits if_splits)

text \<open>
  Claim C10. If the mean of the baseline sample of a column is exactly \<open>0\<close>, no indicator
  of type \<open>mean_change\<close> is emitted for that column, whatever the statistics of the second
  sample are: the relative change is taken to be \<open>0\<close> and the quotient is not evaluated.
\<close>

theorem zero_baseline_mean_no_mean_change:
  assumes "stats1_dict ''mean'' = Some v1" and "py_float v1 = Some 0"
  shows "\<forall>ind\<in>set (drift_indicators py_float stats1_dict stats2_dict). ind_type ind \<noteq> ''mean_change''"
proof
  fix ind assume "ind \<in> set (drift_indicators py_float stats1_dict stats2_dict)"
  then have "ind \<in> set (stddev_indicators py_float stats1_dict stats2_dict)"
    by (simp add: drift_indicators_def mean_indicators_zero_baseline [where stats1_dict = stats1_dict and py_float = py_float, OF assms])
  then have "ind_type ind = ''stddev_change''"
    by (rule stddev_indicators_type)
  then show "ind_type ind \<noteq> ''mean_change''"
    by simp
qed

theorem zero_baseline_mean_no_mean_change_witness:
  "zero_mean_stats ''mean'' = Some (Some ''0.0'') \<and> float_table (Some ''0.0'') = Some 0 \<and>
   shifted_stats ''mean'' = Some (Some ''1000000.0'') \<and>
   float_table (Some ''1000000.0'') = Some 1000000 \<and>
   map ind_type (drift_indicators float_table zero_mean_stats shifted_stats) = [''stddev_change''] \<and>
   ''mean_change'' \<notin> set (map ind_type (drift_indicators float_table zero_mean_stats shifted_stats))"
proof -
  have h1: "zero_mean_stats ''mean'' = Some (Some ''0.0'')"
    by (simp add: zero_mean_stats_def)
  have h2: "float_table (Some ''0.0'') = Some 0"
    by (simp add: float_table_def)
  have h3: "shifted_stats ''mean'' = Some (Some ''1000000.0'')"
    by (simp add: shifted_stats_def)
  have h4: "float_table (Some ''1000000.0'') = Some 1000000"
    by (simp add: float_table_def)
  have e: "map ind_type (drift_indicators float_table zero_mean_stats shifted_stats) = [''stddev_change'']"
    by (simp add: drift_indicators_def mean_indicators_def stddev_indicators_def
        zero_mean_stats_def shifted_stats_def float_table_def)
  from zero_baseline_mean_no_mean_change [where stats1_dict = zero_mean_stats and py_float = float_table
      and stats2_dict = shifted_stats, OF h1 h2]
  have n: "''mean_change'' \<notin> set (map ind_type (drift_indicators float_table zero_mean_stats shifted_stats))"
    by auto
  from h1 h2 h3 h4 e n show ?thesis by blast
qed

section \<open>Properties of the samplers\<close>

text \<open>
  Random and Systematic sampling return the full source unchanged when its row count is at
  most \<open>sampleSize\<close>. Systematic sampling ends with \<open>limit(sample_size)\<close> and returns at
  most \<open>sampleSize\<close> rows. Random sampling is \<open>df.sample(fraction=sample_ratio, seed=42)\<close>
  with nothing after it: it returns rows of the source, and how many is decided by the draws
  of Spark's sampler alone, which are a parameter here.
\<close>

lemma df_count_drop_col: "df_count (drop_col c df) = df_count df"
  by (simp add: df_count_def drop_col_def)

lemma random_sampling_small:
  "int (df_count df) \<le> sample_size \<Longrightarrow> random_sampling draws df sample_size = Inr df"
  by (simp add: random_sampling_def)

lemma systematic_sampling_small:
  "int (df_count df) \<le> sample_size \<Longrightarrow> systematic_sampling df sample_size = Inr df"
  by (simp add: systematic_sampling_def)

lemma systematic_sampling_large:
  assumes "0 < sample_size" and "sample_size < int (df_count df)"
    and "''__row_id'' \<in> set (columns df)"
  shows "\<exists>s. systematic_sampling df sample_size = Inr s \<and> int (df_count s) \<le> sample_size"
proof -
  let ?numbered = "with_row_number df"
  let ?interval = "int (df_count df) div sample_size"
  let ?filtered = "filter_rows
      (\<lambda>row. case cell_at ?numbered row ''__row_num'' of
               LongV num \<Rightarrow> spark_mod num ?interval = Some 0
             | _ \<Rightarrow> False) ?numbered"
  let ?s = "drop_col ''__row_num'' (?filtered\<lparr>rows := take (nat sample_size) (rows ?filtered)\<rparr>)"
  have run: "systematic_sampling df sample_size = Inr ?s"
    using assms by (simp add: systematic_sampling_def py_floordiv_def limit_rows_def Let_def)
  have "df_count ?s \<le> nat sample_size"
    unfolding df_count_drop_col by (simp add: df_count_def)
  with assms(1) have "int (df_count ?s) \<le> sample_size"
    by linarith
  with run show ?thesis by blast
qed

lemma sample_rows_sub:
  assumes "0 \<le> fraction" and "fraction \<le> 1"
  shows "\<exists>s. sample_rows draws fraction df = Inr s \<and> schema s = schema df \<and>
             mset (rows s) \<subseteq># mset (rows df)"
proof -
  let ?ps = "zip [0..<length (rows df)] (rows df)"
  let ?s = "df\<lparr>rows := map snd [p \<leftarrow> ?ps. draws (fst p) < fraction]\<rparr>"
  have run: "sample_rows draws fraction df = Inr ?s"
    using assms by (simp add: sample_rows_def)
  have "mset (map snd [p \<leftarrow> ?ps. draws (fst p) < fraction]) \<subseteq># mset (map snd ?ps)"
    unfolding mset_map mset_filter by (rule image_mset_subseteq_mono) simp
  moreover have "map snd ?ps = rows df"
    by simp
  ultimately have "mset (rows ?s) \<subseteq># mset (rows df)"
    by simp
  with run show ?thesis by auto
qed

lemma random_sampling_sub:
  assumes "0 < sample_size"
  shows "\<exists>s. random_sampling draws df sample_size = Inr s \<and> schema s = schema df \<and>
             mset (rows s) \<subseteq># mset (rows df)"
proof (cases "int (df_count df) \<le> sample_size")
  case True
  then show ?thesis by (simp add: random_sampling_small)
next
  case False
  then have big: "sample_size < int (df_count df)" by simp
  with assms have pos: "0 < df_count df" by linarith
  let ?ratio = "real_of_int sample_size / real_of_int (int (df_count df))"
  have "0 \<le> ?ratio" and "?ratio \<le> 1"
    using assms big pos by simp_all
  from sample_rows_sub [OF this, of draws df] False pos show ?thesis
    by (simp add: random_sampling_def Let_def)
qed

text \<open>Systematic sampling of two rows from the five-row example: every second row.\<close>

lemma systematic_sampling_example:
  "systematic_sampling id_chunk 2 =
     Inr \<lparr>schema = [(''__row_id'', LongType), (''v'', StringType)],
          rows = [[LongV 1, StrV ''b''], [LongV 3, StrV ''d'']]\<rparr>"
  by (simp add: systematic_sampling_def py_floordiv_def df_count_def id_chunk_def columns_def
      with_row_number_def row_id_value_def cell_at_def filter_rows_def spark_mod_def trunc_div_def
      limit_rows_def drop_col_def upt_rec)

lemma numeric_columns_empty: "numeric_columns df = []"
  by (simp add: numeric_columns_def numeric_type_names_def)

text \<open>
  Claim C7 does not hold of the code. The stratified branch of \<open>adaptive_sampling\<close> looks
  for the first numeric column, as the claim says, but it tests the \<open>DataType\<close> object of
  each field for membership in a list of type-name strings, which no \<open>DataType\<close> object
  equals: the list of numeric columns is always empty, \<open>stratified_sampling\<close> is never called
  and the branch always falls back to Random sampling, also for a source with an integer
  column.
\<close>

theorem adaptive_sampling_stratified_falls_back:
  "numeric_columns df = [] \<and>
   adaptive_sampling draws stratified_sampling df sample_size ''stratified'' =
     random_sampling draws df sample_size"
  by (simp add: adaptive_sampling_def numeric_columns_empty)

theorem adaptive_sampling_stratified_falls_back_witness:
  "map_of (schema people) ''age'' = Some IntegerType \<and>
   adaptive_sampling (\<lambda>i. 0) stratified_stub people 2 ''stratified'' = Inr people \<and>
   stratified_stub people 2 ''age'' \<noteq> Inr people"
proof -
  have a: "map_of (schema people) ''age'' = Some IntegerType"
    by (simp add: people_def)
  have r: "random_sampling (\<lambda>i. 0) people 2 = Inr people"
    by (simp add: random_sampling_def sample_rows_def df_count_def people_def upt_rec)
  have s: "stratified_stub people 2 ''age'' \<noteq> Inr people"
    by (simp add: stratified_stub_def people_def)
  from adaptive_sampling_stratified_falls_back [of people "\<lambda>i. 0" stratified_stub 2] r
  have "adaptive_sampling (\<lambda>i. 0) stratified_stub people 2 ''stratified'' = Inr people"
    by simp
  with a s show ?thesis by blast
qed

end
